theory Spec2Isabelle
  imports Complex_Main "HOL-Library.Multiset"
begin

section \<open>Numbers of type double\<close>

text \<open>
  The registration code computes on C++ \<^verbatim>\<open>double\<close> (and \<^verbatim>\<open>float\<close>) values and tests them
  for NaN itself (\<^verbatim>\<open>delta_p_norm != delta_p_norm\<close>, \<^verbatim>\<open>dist * 0 != 0\<close>), so the special
  values are part of the model: a double is NaN, plus or minus infinity, or a finite real.
  The operations follow IEEE 754 on the special values. The rounding of an operation on
  doubles, its overflow on finite operands, and the sign of zero are not modelled: a finite
  result is the exact real result, and a zero divisor counts as +0. The conversions to
  \<^verbatim>\<open>float\<close> do round and overflow (see the values of type float below).
\<close>

datatype double = NaN | PInf | NInf | Fin real

fun dneg :: "double \<Rightarrow> double" where
  "dneg NaN = NaN"
| "dneg PInf = NInf"
| "dneg NInf = PInf"
| "dneg (Fin x) = Fin (- x)"

fun dadd :: "double \<Rightarrow> double \<Rightarrow> double" where
  "dadd NaN b = NaN"
| "dadd a NaN = NaN"
| "dadd PInf NInf = NaN"
| "dadd NInf PInf = NaN"
| "dadd PInf b = PInf"
| "dadd a PInf = PInf"
| "dadd NInf b = NInf"
| "dadd a NInf = NInf"
| "dadd (Fin x) (Fin y) = Fin (x + y)"

fun dmul :: "double \<Rightarrow> double \<Rightarrow> double" where
  "dmul NaN b = NaN"
| "dmul a NaN = NaN"
| "dmul PInf PInf = PInf"
| "dmul PInf NInf = NInf"
| "dmul NInf PInf = NInf"
| "dmul NInf NInf = PInf"
| "dmul PInf (Fin y) = (if y = 0 then NaN else if 0 < y then PInf else NInf)"
| "dmul NInf (Fin y) = (if y = 0 then NaN else if 0 < y then NInf else PInf)"
| "dmul (Fin x) PInf = (if x = 0 then NaN else if 0 < x then PInf else NInf)"
| "dmul (Fin x) NInf = (if x = 0 then NaN else if 0 < x then NInf else PInf)"
| "dmul (Fin x) (Fin y) = Fin (x * y)"

fun ddiv :: "double \<Rightarrow> double \<Rightarrow> double" where
  "ddiv NaN b = NaN"
| "ddiv a NaN = NaN"
| "ddiv PInf PInf = NaN"
| "ddiv PInf NInf = NaN"
| "ddiv NInf PInf = NaN"
| "ddiv NInf NInf = NaN"
| "ddiv PInf (Fin y) = (if 0 \<le> y then PInf else NInf)"
| "ddiv NInf (Fin y) = (if 0 \<le> y then NInf else PInf)"
| "ddiv (Fin x) PInf = Fin 0"
| "ddiv (Fin x) NInf = Fin 0"
| "ddiv (Fin x) (Fin y) =
     (if y = 0 then (if x = 0 then NaN else if 0 < x then PInf else NInf) else Fin (x / y))"

text \<open>The comparison \<^verbatim>\<open>a < b\<close>: false as soon as one side is NaN.\<close>

fun dlt :: "double \<Rightarrow> double \<Rightarrow> bool" where
  "dlt NaN b = False"
| "dlt a NaN = False"
| "dlt PInf b = False"
| "dlt a NInf = False"
| "dlt NInf b = True"
| "dlt (Fin x) PInf = True"
| "dlt (Fin x) (Fin y) = (x < y)"

text \<open>The comparison \<^verbatim>\<open>a == b\<close>: NaN is not equal to itself; \<^verbatim>\<open>a != b\<close> is its negation.\<close>

definition feq :: "double \<Rightarrow> double \<Rightarrow> bool" where
  "feq a b = (a \<noteq> NaN \<and> a = b)"

instantiation double :: "{plus, minus, uminus, times, inverse, ord}"
begin

definition plus_double_def [simp]: "a + b = dadd a b"

definition uminus_double_def [simp]: "- a = dneg a"

definition minus_double_def [simp]: "a - b = dadd a (dneg b)"

definition times_double_def [simp]: "a * b = dmul a b"

definition divide_double_def [simp]: "a div b = ddiv a b"

definition inverse_double_def [simp]: "inverse a = ddiv (Fin 1) a"

definition less_double_def [simp]: "a < b = dlt a b"

definition less_eq_double_def [simp]: "a \<le> b = (dlt a b \<or> feq a b)"

instance ..

end

text \<open>\<^verbatim>\<open>std::sqrt\<close>, \<^verbatim>\<open>std::fabs\<close>, \<^verbatim>\<open>std::exp\<close>, \<^verbatim>\<open>std::log\<close>, \<^verbatim>\<open>std::pow(x, 2)\<close>, \<^verbatim>\<open>std::sin\<close>,
  \<^verbatim>\<open>std::cos\<close> on the special values.\<close>

fun dsqrt :: "double \<Rightarrow> double" where
  "dsqrt NaN = NaN"
| "dsqrt PInf = PInf"
| "dsqrt NInf = NaN"
| "dsqrt (Fin x) = (if x < 0 then NaN else Fin (sqrt x))"

fun fabs :: "double \<Rightarrow> double" where
  "fabs NaN = NaN"
| "fabs PInf = PInf"
| "fabs NInf = PInf"
| "fabs (Fin x) = Fin \<bar>x\<bar>"

fun dexp :: "double \<Rightarrow> double" where
  "dexp NaN = NaN"
| "dexp PInf = PInf"
| "dexp NInf = Fin 0"
| "dexp (Fin x) = Fin (exp x)"

fun dlog :: "double \<Rightarrow> double" where
  "dlog NaN = NaN"
| "dlog PInf = PInf"
| "dlog NInf = NaN"
| "dlog (Fin x) = (if x < 0 then NaN else if x = 0 then NInf else Fin (ln x))"

definition pow2 :: "double \<Rightarrow> double" where
  "pow2 x = x * x"

fun dsin :: "double \<Rightarrow> double" where
  "dsin (Fin x) = Fin (sin x)"
| "dsin a = NaN"

fun dcos :: "double \<Rightarrow> double" where
  "dcos (Fin x) = Fin (cos x)"
| "dcos a = NaN"

text \<open>\<^verbatim>\<open>std::min(a, b)\<close> is \<^verbatim>\<open>(b < a) ? b : a\<close> and \<^verbatim>\<open>std::max(a, b)\<close> is
  \<^verbatim>\<open>(a < b) ? b : a\<close>.\<close>

definition std_min :: "double \<Rightarrow> double \<Rightarrow> double" where
  "std_min a b = (if b < a then b else a)"

definition std_max :: "double \<Rightarrow> double \<Rightarrow> double" where
  "std_max a b = (if a < b then b else a)"

section \<open>Values of type float\<close>

text \<open>
  A \<^verbatim>\<open>float\<close> is held as the double it converts to, which is exact. The conversion of a double
  to \<^verbatim>\<open>float\<close> (a \<^verbatim>\<open>static_cast<float>\<close>, a double stored in a \<^verbatim>\<open>float\<close>, the result of an
  operation on floats) rounds to the nearest value with a significand of 24 bits and an
  exponent of at least -126, ties to the even significand, and overflows to infinity.
  \<open>round_binary p emin\<close> is this rounding for a significand of \<open>p\<close> bits and the least
  exponent \<open>emin\<close>, before the overflow.
\<close>

definition rne :: "real \<Rightarrow> int" where
  "rne x = (let f = \<lfloor>x\<rfloor>; r = x - of_int f
            in if r < 1 / 2 then f else if 1 / 2 < r then f + 1
               else if even f then f else f + 1)"

definition binary_exponent :: "int \<Rightarrow> real \<Rightarrow> int" where
  "binary_exponent emin x = max \<lfloor>log 2 \<bar>x\<bar>\<rfloor> emin"

definition round_binary :: "nat \<Rightarrow> int \<Rightarrow> real \<Rightarrow> real" where
  "round_binary p emin x =
     (if x = 0 then 0
      else let u = 2 powr (of_int (binary_exponent emin x) - (real p - 1))
           in sgn x * of_int (rne (\<bar>x\<bar> / u)) * u)"

fun to_float :: "double \<Rightarrow> double" where
  "to_float (Fin x) =
     (let y = round_binary 24 (- 126) x
      in if 2 ^ 128 \<le> \<bar>y\<bar> then (if 0 < y then PInf else NInf) else Fin y)"
| "to_float a = a"

text \<open>\<^verbatim>\<open>std::pow(2, i)\<close> for an \<^verbatim>\<open>int\<close> i that is not negative: the double 2^i, infinite from
  i = 1024 on.\<close>

definition pow_2 :: "nat \<Rightarrow> double" where
  "pow_2 i = (if i < 1024 then Fin (2 ^ i) else PInf)"

text \<open>
  \<^verbatim>\<open>std::sort\<close> on floats, by insertion. The standard fixes the result only when \<^verbatim>\<open><\<close> is a
  strict weak order on the values, that is when none of them is NaN; the result is then the
  ascending arrangement, whatever the algorithm.
\<close>

fun insert_sorted :: "double \<Rightarrow> double list \<Rightarrow> double list" where
  "insert_sorted x [] = [x]"
| "insert_sorted x (y # ys) = (if y < x then y # insert_sorted x ys else x # y # ys)"

definition std_sort :: "double list \<Rightarrow> double list" where
  "std_sort xs = foldr insert_sorted xs []"

section \<open>Fitting constants\<close>

text \<open>
  \<^verbatim>\<open>struct FittingParams\<close> of \<^verbatim>\<open>d2d_ndt2d.h\<close>. Its constructor zero-initialises the three
  fields and calls \<^verbatim>\<open>calcParams\<close>; nothing in it tests its arguments, throws or returns early.
  The constructor is modelled with a result type that has room for the error the
  specification names, so that "construction fails" is a statement about the model.
\<close>

record FittingParams =
  gauss_d1 :: double
  gauss_d2 :: double
  gauss_d2_half :: double

datatype error = InvalidParameter | InsufficientOverlap | NoAlignment

definition calcParams :: "double \<Rightarrow> double \<Rightarrow> FittingParams" where
  "calcParams outlier_ratio resolution =
     (let gauss_c1 = Fin 10 * (Fin 1 - outlier_ratio);
          gauss_c2 = outlier_ratio / pow2 resolution;
          gauss_d3 = - dlog gauss_c2;
          d1 = - dlog (gauss_c1 + gauss_c2) - gauss_d3;
          d2 = Fin (- 2) *
               dlog ((- dlog (gauss_c1 * dexp (Fin (- (1 / 2))) + gauss_c2) - gauss_d3) / d1)
      in \<lparr>gauss_d1 = d1, gauss_d2 = d2, gauss_d2_half = d2 / Fin 2\<rparr>)"

definition FittingParams_ctor :: "double \<Rightarrow> double \<Rightarrow> error + FittingParams" where
  "FittingParams_ctor outlier_ratio resolution = Inr (calcParams outlier_ratio resolution)"

section \<open>Vectors and matrices\<close>

text \<open>
  Eigen vectors and matrices are functions from indices to entries; an entry outside the
  dimensions of the object is zero. The operations below are the ones the source uses on
  3-vectors and 3x3 matrices, written out entry by entry.
\<close>

type_synonym vec = "nat \<Rightarrow> double"

type_synonym mat = "nat \<Rightarrow> nat \<Rightarrow> double"

definition vec3 :: "double \<Rightarrow> double \<Rightarrow> double \<Rightarrow> vec" where
  "vec3 a b c = (\<lambda>i. if i = 0 then a else if i = 1 then b else if i = 2 then c else Fin 0)"

definition mat33 :: "(nat \<Rightarrow> nat \<Rightarrow> double) \<Rightarrow> mat" where
  "mat33 f = (\<lambda>i j. if i < 3 \<and> j < 3 then f i j else Fin 0)"

definition vec_zero :: vec where
  "vec_zero = (\<lambda>i. Fin 0)"

definition mat_zero :: mat where
  "mat_zero = (\<lambda>i j. Fin 0)"

definition mat_identity :: "nat \<Rightarrow> mat" where
  "mat_identity n = (\<lambda>i j. if i < n \<and> j < n \<and> i = j then Fin 1 else Fin 0)"

text \<open>Writing a block with the comma initialiser (row by row), writing one entry, reading
  a 3x3 block and a 3x1 block.\<close>

definition set_block :: "nat \<Rightarrow> nat \<Rightarrow> double list list \<Rightarrow> mat \<Rightarrow> mat" where
  "set_block r c rows M =
     (\<lambda>i j. if r \<le> i \<and> i - r < length rows \<and> c \<le> j \<and> j - c < length (rows ! (i - r))
            then rows ! (i - r) ! (j - c) else M i j)"

definition set_elem :: "nat \<Rightarrow> nat \<Rightarrow> double \<Rightarrow> mat \<Rightarrow> mat" where
  "set_elem r c v M = (\<lambda>i j. if i = r \<and> j = c then v else M i j)"

definition block33 :: "mat \<Rightarrow> nat \<Rightarrow> nat \<Rightarrow> mat" where
  "block33 M r c = mat33 (\<lambda>i j. M (r + i) (c + j))"

definition block31 :: "mat \<Rightarrow> nat \<Rightarrow> nat \<Rightarrow> vec" where
  "block31 M r c = vec3 (M r c) (M (r + 1) c) (M (r + 2) c)"

definition vadd :: "vec \<Rightarrow> vec \<Rightarrow> vec" where
  "vadd u v = (\<lambda>i. u i + v i)"

definition vsub :: "vec \<Rightarrow> vec \<Rightarrow> vec" where
  "vsub u v = (\<lambda>i. u i - v i)"

definition vneg :: "vec \<Rightarrow> vec" where
  "vneg u = vec3 (- u 0) (- u 1) (- u 2)"

definition vscale :: "vec \<Rightarrow> double \<Rightarrow> vec" where
  "vscale u s = vec3 (u 0 * s) (u 1 * s) (u 2 * s)"

definition scalev :: "double \<Rightarrow> vec \<Rightarrow> vec" where
  "scalev s u = vec3 (s * u 0) (s * u 1) (s * u 2)"

definition dot :: "vec \<Rightarrow> vec \<Rightarrow> double" where
  "dot u v = u 0 * v 0 + u 1 * v 1 + u 2 * v 2"

definition madd :: "mat \<Rightarrow> mat \<Rightarrow> mat" where
  "madd A B = (\<lambda>i j. A i j + B i j)"

definition msub :: "mat \<Rightarrow> mat \<Rightarrow> mat" where
  "msub A B = (\<lambda>i j. A i j - B i j)"

definition scalem :: "double \<Rightarrow> mat \<Rightarrow> mat" where
  "scalem s A = mat33 (\<lambda>i j. s * A i j)"

definition mtranspose :: "mat \<Rightarrow> mat" where
  "mtranspose A = (\<lambda>i j. A j i)"

definition mat_mul :: "mat \<Rightarrow> mat \<Rightarrow> mat" where
  "mat_mul A B = mat33 (\<lambda>i j. A i 0 * B 0 j + A i 1 * B 1 j + A i 2 * B 2 j)"

definition mat_vec :: "mat \<Rightarrow> vec \<Rightarrow> vec" where
  "mat_vec A v =
     vec3 (A 0 0 * v 0 + A 0 1 * v 1 + A 0 2 * v 2)
          (A 1 0 * v 0 + A 1 1 * v 1 + A 1 2 * v 2)
          (A 2 0 * v 0 + A 2 1 * v 1 + A 2 2 * v 2)"

text \<open>A row vector (1x3) times a 3x3 matrix; a column times a row (the outer product).\<close>

definition row_mat :: "vec \<Rightarrow> mat \<Rightarrow> vec" where
  "row_mat u A =
     vec3 (u 0 * A 0 0 + u 1 * A 1 0 + u 2 * A 2 0)
          (u 0 * A 0 1 + u 1 * A 1 1 + u 2 * A 2 1)
          (u 0 * A 0 2 + u 1 * A 1 2 + u 2 * A 2 2)"

definition outer :: "vec \<Rightarrow> vec \<Rightarrow> mat" where
  "outer u v = mat33 (\<lambda>i j. u i * v j)"

definition norm3 :: "vec \<Rightarrow> double" where
  "norm3 u = dsqrt (u 0 * u 0 + u 1 * u 1 + u 2 * u 2)"

text \<open>
  The decompositions of Eigen that the source calls are not part of the repository; they are
  parameters of the model: \<^verbatim>\<open>computeInverseAndDetWithCheck\<close> (inverse, determinant and the flag
  that the matrix is invertible), \<^verbatim>\<open>inverse()\<close>, \<^verbatim>\<open>JacobiSVD::solve\<close> and \<^verbatim>\<open>Transform::rotation()\<close>
  (the rotation factor of the linear part of a 4x4 transform).
\<close>

record eigen =
  inverse_check :: "mat \<Rightarrow> mat \<times> double \<times> bool"
  mat_inverse :: "mat \<Rightarrow> mat"
  svd_solve :: "mat \<Rightarrow> vec \<Rightarrow> vec"
  rotation_part :: "mat \<Rightarrow> mat"

section \<open>Score triple and derivative kit\<close>

text \<open>\<^verbatim>\<open>struct ScoreAndDerivatives<3, double>\<close> with its \<^verbatim>\<open>Zero()\<close> and \<^verbatim>\<open>operator+=\<close>.\<close>

record ScoreAndDerivatives =
  sd_hessian :: mat
  sd_gradient :: vec
  sd_value :: double

definition Zero :: ScoreAndDerivatives where
  "Zero = \<lparr>sd_hessian = mat_zero, sd_gradient = vec_zero, sd_value = Fin 0\<rparr>"

definition score_add :: "ScoreAndDerivatives \<Rightarrow> ScoreAndDerivatives \<Rightarrow> ScoreAndDerivatives" where
  "score_add l r =
     \<lparr>sd_hessian = madd (sd_hessian l) (sd_hessian r),
      sd_gradient = vadd (sd_gradient l) (sd_gradient r),
      sd_value = sd_value l + sd_value r\<rparr>"

text \<open>\<^verbatim>\<open>struct JacobianHessianDerivatives\<close>: Jest is 3x3, Hest 9x3, Zest 3x9, ZHest 9x9.\<close>

record JacobianHessianDerivatives =
  Jest :: mat
  Hest :: mat
  Zest :: mat
  ZHest :: mat

definition setZero :: "JacobianHessianDerivatives \<Rightarrow> JacobianHessianDerivatives" where
  "setZero d = d\<lparr>Jest := mat_zero, Hest := mat_zero, Zest := mat_zero, ZHest := mat_zero\<rparr>"

definition JHD_Zero :: JacobianHessianDerivatives where
  "JHD_Zero = \<lparr>Jest = mat_zero, Hest = mat_zero, Zest = mat_zero, ZHest = mat_zero\<rparr>"

definition computeDerivatives ::
  "vec \<Rightarrow> mat \<Rightarrow> JacobianHessianDerivatives \<Rightarrow> bool \<Rightarrow> JacobianHessianDerivatives" where
  "computeDerivatives x cov data calc_hessian =
     (let d0 = setZero data;
          d1 = d0\<lparr>Jest := set_block 0 0 [[Fin 1, Fin 0], [Fin 0, Fin 1]] (Jest d0)\<rparr>;
          d2 = d1\<lparr>Jest := set_elem 0 2 (- x 1) (Jest d1)\<rparr>;
          d3 = d2\<lparr>Jest := set_elem 1 2 (x 0) (Jest d2)\<rparr>;
          d4 = d3\<lparr>Zest := set_block 0 6
                 [[Fin (- 2) * cov 0 1, - cov 1 1 + cov 0 0, - cov 1 2],
                  [- cov 1 1 + cov 0 0, Fin 2 * cov 0 1, cov 0 2],
                  [- cov 1 2, cov 0 2, Fin 0]] (Zest d3)\<rparr>
      in if calc_hessian
         then d4\<lparr>Hest := set_block 6 2 [[- x 0], [- x 1], [Fin 0]] (Hest d4),
                 ZHest := set_block 6 6
                   [[Fin 2 * cov 1 1 - Fin 2 * cov 0 0, Fin (- 4) * cov 0 1, - cov 0 2],
                    [Fin (- 4) * cov 0 1, Fin 2 * cov 0 0 - Fin 2 * cov 1 1, - cov 1 2],
                    [- cov 0 2, - cov 1 2, Fin 0]] (ZHest d4)\<rparr>
         else d4)"

section \<open>Pose codec\<close>

text \<open>
  \<^verbatim>\<open>Eigen::AngleAxis(angle, UnitZ())\<close> converted to a rotation matrix, as Eigen computes it from
  the axis (0, 0, 1); for a finite angle this is the rotation about Z.
\<close>

definition angle_axis_z :: "double \<Rightarrow> mat" where
  "angle_axis_z angle =
     (let s = dsin angle; c = dcos angle;
          sin_x = s * Fin 0; sin_y = s * Fin 0; sin_z = s * Fin 1;
          cos1_x = (Fin 1 - c) * Fin 0; cos1_y = (Fin 1 - c) * Fin 0; cos1_z = (Fin 1 - c) * Fin 1;
          t01 = cos1_x * Fin 0; t02 = cos1_x * Fin 1; t12 = cos1_y * Fin 1
      in mat33 (\<lambda>i j.
           if i = 0 then (if j = 0 then cos1_x * Fin 0 + c else if j = 1 then t01 - sin_z
                          else t02 + sin_y)
           else if i = 1 then (if j = 0 then t01 + sin_z else if j = 1 then cos1_y * Fin 0 + c
                          else t12 - sin_x)
           else (if j = 0 then t02 - sin_y else if j = 1 then t12 + sin_x
                          else cos1_z * Fin 1 + c)))"

text \<open>
  \<^verbatim>\<open>vecToMat<T>\<close> casts the three components of the pose to \<^verbatim>\<open>T\<close>; the cast is the first
  parameter: \<open>cast_float\<close> for the default \<^verbatim>\<open>T = float\<close>, \<open>cast_double\<close> for
  \<^verbatim>\<open>vecToMat<double>\<close>. The sine and the cosine of the cast angle are taken exact.
\<close>

definition cast_double :: "double \<Rightarrow> double" where
  "cast_double a = a"

definition cast_float :: "double \<Rightarrow> double" where
  "cast_float a = to_float a"

definition vecToMat :: "(double \<Rightarrow> double) \<Rightarrow> vec \<Rightarrow> mat" where
  "vecToMat cast trans_p =
     (let trans_mat = mat_identity 4;
          R = angle_axis_z (cast (trans_p 2));
          m1 = set_block 0 0 [[R 0 0, R 0 1, R 0 2], [R 1 0, R 1 1, R 1 2], [R 2 0, R 2 1, R 2 2]]
                 trans_mat
      in set_block 0 3 [[cast (trans_p 0)], [cast (trans_p 1)], [Fin 0]] m1)"

text \<open>\<^verbatim>\<open>std::atan2(y, x)\<close>.\<close>

definition atan2r :: "real \<Rightarrow> real \<Rightarrow> real" where
  "atan2r y x =
     (if 0 < x then arctan (y / x)
      else if x < 0 then (if 0 \<le> y then arctan (y / x) + pi else arctan (y / x) - pi)
      else if 0 < y then pi / 2 else if y < 0 then - (pi / 2) else 0)"

fun datan2 :: "double \<Rightarrow> double \<Rightarrow> double" where
  "datan2 NaN x = NaN"
| "datan2 y NaN = NaN"
| "datan2 PInf PInf = Fin (pi / 4)"
| "datan2 PInf NInf = Fin (3 * pi / 4)"
| "datan2 NInf PInf = Fin (- (pi / 4))"
| "datan2 NInf NInf = Fin (- (3 * pi / 4))"
| "datan2 PInf (Fin x) = Fin (pi / 2)"
| "datan2 NInf (Fin x) = Fin (- (pi / 2))"
| "datan2 (Fin y) PInf = Fin 0"
| "datan2 (Fin y) NInf = (if 0 \<le> y then Fin pi else Fin (- pi))"
| "datan2 (Fin y) (Fin x) = Fin (atan2r y x)"

definition matToVec :: "eigen \<Rightarrow> mat \<Rightarrow> vec" where
  "matToVec E trans_m =
     (let translation = block31 trans_m 0 3;
          rot = rotation_part E trans_m
      in vec3 (translation 0) (translation 1) (datan2 (rot 1 0) (rot 0 0)))"

section \<open>Per-pair score\<close>

text \<open>A leaf of \<^verbatim>\<open>VoxelGridCovariance\<close>, read through \<^verbatim>\<open>getMean()\<close> and \<^verbatim>\<open>getCov()\<close>.\<close>

record Leaf =
  getMean :: vec
  getCov :: mat

definition only_row2 :: "(nat \<Rightarrow> double) \<Rightarrow> mat" where
  "only_row2 f = (\<lambda>i j. if i = 2 \<and> j < 3 then f j else Fin 0)"

definition only_col2 :: "vec \<Rightarrow> mat" where
  "only_col2 v = (\<lambda>i j. if j = 2 \<and> i < 3 then v i else Fin 0)"

definition calcSourceCellScore ::
  "eigen \<Rightarrow> vec \<Rightarrow> mat \<Rightarrow> Leaf \<Rightarrow> JacobianHessianDerivatives \<Rightarrow> FittingParams \<Rightarrow> bool
     \<Rightarrow> ScoreAndDerivatives" where
  "calcSourceCellScore E mean_source cov_source cell_t deriv param calc_hessian =
     (let diff_mean = vsub mean_source (getMean cell_t);
          cov_sum = madd (getCov cell_t) cov_source;
          (icov, det, exists) = inverse_check E cov_sum
      in if \<not> exists then Zero
         else
           let dist = dot diff_mean (mat_vec icov diff_mean)
           in if \<not> feq (dist * Fin 0) (Fin 0) then Zero
              else
                let res_value = - gauss_d1 param * dexp (- gauss_d2_half param * dist);
                    xtB = row_mat diff_mean icov;
                    xtBJ = row_mat xtB (Jest deriv);
                    TMP1 = row_mat (row_mat xtB (block33 (Zest deriv) 0 6)) icov;
                    xtBZBx = vec3 (Fin 0) (Fin 0) (dot TMP1 diff_mean);
                    xtBZBJ = (if calc_hessian then only_col2 (row_mat TMP1 (Jest deriv))
                              else mat_zero);
                    xtBH = (if calc_hessian
                            then only_row2 (\<lambda>j. dot xtB (block31 (Hest deriv) 6 j))
                            else mat_zero);
                    xtBZBZBx = (if calc_hessian
                            then only_row2 (\<lambda>j. dot (row_mat (row_mat TMP1
                                   (block33 (Zest deriv) 0 (3 * j))) icov) diff_mean)
                            else mat_zero);
                    xtBZhBx = (if calc_hessian
                            then only_row2 (\<lambda>j. dot (row_mat (row_mat xtB
                                   (block33 (ZHest deriv) 6 (3 * j))) icov) diff_mean)
                            else mat_zero);
                    Q = vsub (scalev (Fin 2) xtBJ) xtBZBx;
                    factor = - gauss_d2_half param * res_value;
                    res_gradient = vadd vec_zero (vscale Q factor);
                    res_hessian =
                      (if calc_hessian
                       then madd mat_zero (scalem factor
                         (msub (madd (madd (msub (msub (msub (madd
                            (mat_mul (mat_mul (scalem (Fin 2) (mtranspose (Jest deriv))) icov)
                               (Jest deriv))
                            (scalem (Fin 2) xtBH))
                            xtBZhBx)
                            (scalem (Fin 2) (mtranspose xtBZBJ)))
                            (scalem (Fin 2) xtBZBJ))
                            xtBZBZBx)
                            (mtranspose xtBZBZBx))
                            (outer (scalev (gauss_d2_half param) Q) Q)))
                       else mat_zero)
                in \<lparr>sd_hessian = res_hessian, sd_gradient = res_gradient,
                    sd_value = res_value\<rparr>)"

section \<open>Score accumulator\<close>

text \<open>
  The source grid is the sequence of its leaves, in the order of \<^verbatim>\<open>getLeaves()\<close>; the target
  grid is read only through \<^verbatim>\<open>nearestKSearch(pt, k, neighborhood, distances)\<close>, so it is the
  function from the query point and k to the neighbourhood.
\<close>

type_synonym SourceGrid = "Leaf list"

type_synonym TargetGrid = "vec \<Rightarrow> nat \<Rightarrow> Leaf list"

definition affine_apply :: "mat \<Rightarrow> vec \<Rightarrow> vec" where
  "affine_apply T v =
     vec3 (T 0 0 * v 0 + T 0 1 * v 1 + T 0 2 * v 2 + T 0 3)
          (T 1 0 * v 0 + T 1 1 * v 1 + T 1 2 * v 2 + T 1 3)
          (T 2 0 * v 0 + T 2 1 * v 1 + T 2 2 * v 2 + T 2 3)"

text \<open>The body of the loop over \<^verbatim>\<open>cell_id\<close>, up to the accumulation: the contributions of one
  source cell, one for each target cell of its neighbourhood, in the order of the inner loop.\<close>

definition cell_contributions ::
  "eigen \<Rightarrow> FittingParams \<Rightarrow> vec \<Rightarrow> TargetGrid \<Rightarrow> bool \<Rightarrow> Leaf \<Rightarrow> ScoreAndDerivatives list" where
  "cell_contributions E param trans_p targetNDT calc_hessian cell =
     (let trans_mat = vecToMat cast_double trans_p;
          mean_source = affine_apply trans_mat (getMean cell);
          cov_source = mat_mul (mat_mul (rotation_part E trans_mat) (getCov cell))
                         (mtranspose (rotation_part E trans_mat));
          partial_derivatives = computeDerivatives mean_source cov_source JHD_Zero calc_hessian;
          pt = vec3 (mean_source 0) (mean_source 1) (mean_source 2);
          neighborhood = targetNDT pt 2
      in map (\<lambda>target_cell. calcSourceCellScore E mean_source cov_source target_cell
                 partial_derivatives param calc_hessian) neighborhood)"

text \<open>
  The parallel region. OpenMP decides which thread runs which iteration and in which order
  the iterations finish; that decision is the parameter \<open>sched\<close>, the list of
  (thread number, cell index) in the order in which the iterations run. An iteration adds its
  contributions to \<^verbatim>\<open>omp_ret[thread_id]\<close>. The vector \<^verbatim>\<open>omp_ret\<close> is resized to 4 and then
  extended by 4 more default-constructed entries, so it has 8 slots.
\<close>

definition omp_iteration ::
  "(Leaf \<Rightarrow> ScoreAndDerivatives list) \<Rightarrow> Leaf list \<Rightarrow> nat \<times> nat \<Rightarrow> ScoreAndDerivatives list
     \<Rightarrow> ScoreAndDerivatives list" where
  "omp_iteration contrib source_cells tc omp_ret =
     (case tc of (thread_id, cell_id) \<Rightarrow>
        omp_ret[thread_id := foldl score_add (omp_ret ! thread_id)
                               (contrib (source_cells ! cell_id))])"

definition calcScore ::
  "eigen \<Rightarrow> (nat \<times> nat) list \<Rightarrow> FittingParams \<Rightarrow> SourceGrid \<Rightarrow> vec \<Rightarrow> TargetGrid \<Rightarrow> bool
     \<Rightarrow> ScoreAndDerivatives" where
  "calcScore E sched param sourceNDT trans_p targetNDT calc_hessian =
     (let res = Zero;
          source_cells = sourceNDT;
          omp_ret0 = replicate 4 Zero @ replicate 4 Zero;
          omp_ret = fold (omp_iteration (cell_contributions E param trans_p targetNDT calc_hessian)
                            source_cells) sched omp_ret0
      in foldl score_add res omp_ret)"

section \<open>More-Thuente line search\<close>

definition auxilaryFunction_PsiMT :: "double \<Rightarrow> double \<Rightarrow> double \<Rightarrow> double \<Rightarrow> double \<Rightarrow> double" where
  "auxilaryFunction_PsiMT a f_a f_0 g_0 mu = f_a - f_0 - mu * g_0 * a"

definition auxilaryFunction_dPsiMT :: "double \<Rightarrow> double \<Rightarrow> double \<Rightarrow> double" where
  "auxilaryFunction_dPsiMT g_a g_0 mu = g_a - mu * g_0"

text \<open>\<^verbatim>\<open>updateIntervalMT\<close> changes the endpoints through references and returns the flag
  "interval converged"; the model returns the flag, the lower endpoint (a_l, f_l, g_l) and the
  upper endpoint (a_u, f_u, g_u).\<close>

definition updateIntervalMT ::
  "double \<Rightarrow> double \<Rightarrow> double \<Rightarrow> double \<Rightarrow> double \<Rightarrow> double \<Rightarrow> double \<Rightarrow> double \<Rightarrow> double
     \<Rightarrow> bool \<times> (double \<times> double \<times> double) \<times> (double \<times> double \<times> double)" where
  "updateIntervalMT a_l f_l g_l a_u f_u g_u a_t f_t g_t =
     (if f_l < f_t then (False, (a_l, f_l, g_l), (a_t, f_t, g_t))
      else if Fin 0 < g_t * (a_l - a_t) then (False, (a_t, f_t, g_t), (a_u, f_u, g_u))
      else if g_t * (a_l - a_t) < Fin 0 then (False, (a_t, f_t, g_t), (a_l, f_l, g_l))
      else (True, (a_l, f_l, g_l), (a_u, f_u, g_u)))"

definition trialValueSelectionMT ::
  "double \<Rightarrow> double \<Rightarrow> double \<Rightarrow> double \<Rightarrow> double \<Rightarrow> double \<Rightarrow> double \<Rightarrow> double \<Rightarrow> double
     \<Rightarrow> double" where
  "trialValueSelectionMT a_l f_l g_l a_u f_u g_u a_t f_t g_t =
     (if f_l < f_t then
        (let z = Fin 3 * (f_t - f_l) / (a_t - a_l) - g_t - g_l;
             w = dsqrt (z * z - g_t * g_l);
             a_c = a_l + (a_t - a_l) * (w - g_l - z) / (g_t - g_l + Fin 2 * w);
             a_q = a_l - Fin (1 / 2) * (a_l - a_t) * g_l / (g_l - (f_l - f_t) / (a_l - a_t))
         in if fabs (a_c - a_l) < fabs (a_q - a_l) then a_c else Fin (1 / 2) * (a_q + a_c))
      else if g_t * g_l < Fin 0 then
        (let z = Fin 3 * (f_t - f_l) / (a_t - a_l) - g_t - g_l;
             w = dsqrt (z * z - g_t * g_l);
             a_c = a_l + (a_t - a_l) * (w - g_l - z) / (g_t - g_l + Fin 2 * w);
             a_s = a_l - (a_l - a_t) / (g_l - g_t) * g_l
         in if fabs (a_s - a_t) \<le> fabs (a_c - a_t) then a_c else a_s)
      else if fabs g_t \<le> fabs g_l then
        (let z = Fin 3 * (f_t - f_l) / (a_t - a_l) - g_t - g_l;
             w = dsqrt (z * z - g_t * g_l);
             a_c = a_l + (a_t - a_l) * (w - g_l - z) / (g_t - g_l + Fin 2 * w);
             a_s = a_l - (a_l - a_t) / (g_l - g_t) * g_l;
             a_t_next = (if fabs (a_c - a_t) < fabs (a_s - a_t) then a_c else a_s)
         in if a_l < a_t then std_min (a_t + Fin (66 / 100) * (a_u - a_t)) a_t_next
            else std_max (a_t + Fin (66 / 100) * (a_u - a_t)) a_t_next)
      else
        (let z = Fin 3 * (f_t - f_u) / (a_t - a_u) - g_t - g_u;
             w = dsqrt (z * z - g_t * g_u)
         in a_u + (a_t - a_u) * (w - g_u - z) / (g_t - g_u + Fin 2 * w)))"

text \<open>The local variables of \<^verbatim>\<open>computeStepLengthMT\<close> that its loop reads and writes.\<close>

record MT =
  mt_a_l :: double
  mt_f_l :: double
  mt_g_l :: double
  mt_a_u :: double
  mt_f_u :: double
  mt_g_u :: double
  mt_interval_converged :: bool
  mt_open_interval :: bool
  mt_a_t :: double
  mt_phi_t :: double
  mt_d_phi_t :: double
  mt_psi_t :: double
  mt_d_psi_t :: double
  mt_step_iterations :: nat

text \<open>
  The call \<^verbatim>\<open>calcScore(param, source_grid, x_t, target_grid, false)\<close> is the parameter \<open>calc\<close>,
  applied to \<open>x_t\<close> and the flag. The loop condition and the loop body:
\<close>

definition mt_continue :: "double \<Rightarrow> MT \<Rightarrow> bool" where
  "mt_continue d_phi_0 s =
     (\<not> mt_interval_converged s \<and> mt_step_iterations s < 10 \<and>
      \<not> (mt_psi_t s \<le> Fin 0 \<and> mt_d_phi_t s \<le> - Fin (9 / 10) * d_phi_0))"

definition mt_body ::
  "(vec \<Rightarrow> bool \<Rightarrow> ScoreAndDerivatives) \<Rightarrow> vec \<Rightarrow> vec \<Rightarrow> double \<Rightarrow> double \<Rightarrow> double \<Rightarrow> double
     \<Rightarrow> MT \<Rightarrow> MT" where
  "mt_body calc x step_dir step_max step_min phi_0 d_phi_0 s =
     (let mu = Fin (1 / 10000);
          a_t0 = (if mt_open_interval s
                  then trialValueSelectionMT (mt_a_l s) (mt_f_l s) (mt_g_l s) (mt_a_u s) (mt_f_u s)
                         (mt_g_u s) (mt_a_t s) (mt_psi_t s) (mt_d_psi_t s)
                  else trialValueSelectionMT (mt_a_l s) (mt_f_l s) (mt_g_l s) (mt_a_u s) (mt_f_u s)
                         (mt_g_u s) (mt_a_t s) (mt_phi_t s) (mt_d_phi_t s));
          a_t1 = std_min a_t0 step_max;
          a_t = std_max a_t1 step_min;
          x_t = vadd x (vscale step_dir a_t);
          score_vals = calc x_t False;
          phi_t = - sd_value score_vals;
          d_phi_t = - dot (sd_gradient score_vals) step_dir;
          psi_t = auxilaryFunction_PsiMT a_t phi_t phi_0 d_phi_0 mu;
          d_psi_t = auxilaryFunction_dPsiMT d_phi_t d_phi_0 mu;
          closes = (mt_open_interval s \<and> (psi_t \<le> Fin 0 \<and> Fin 0 \<le> d_psi_t));
          open_interval = (if closes then False else mt_open_interval s);
          f_l = (if closes then mt_f_l s + phi_0 - mu * d_phi_0 * mt_a_l s else mt_f_l s);
          g_l = (if closes then mt_g_l s + mu * d_phi_0 else mt_g_l s);
          f_u = (if closes then mt_f_u s + phi_0 - mu * d_phi_0 * mt_a_u s else mt_f_u s);
          g_u = (if closes then mt_g_u s + mu * d_phi_0 else mt_g_u s);
          (conv, lower, upper) =
             (if open_interval
              then updateIntervalMT (mt_a_l s) f_l g_l (mt_a_u s) f_u g_u a_t psi_t d_psi_t
              else updateIntervalMT (mt_a_l s) f_l g_l (mt_a_u s) f_u g_u a_t phi_t d_phi_t)
      in \<lparr>mt_a_l = fst lower, mt_f_l = fst (snd lower), mt_g_l = snd (snd lower),
          mt_a_u = fst upper, mt_f_u = fst (snd upper), mt_g_u = snd (snd upper),
          mt_interval_converged = conv, mt_open_interval = open_interval,
          mt_a_t = a_t, mt_phi_t = phi_t, mt_d_phi_t = d_phi_t, mt_psi_t = psi_t,
          mt_d_psi_t = d_psi_t, mt_step_iterations = mt_step_iterations s + 1\<rparr>)"

function mt_loop ::
  "(vec \<Rightarrow> bool \<Rightarrow> ScoreAndDerivatives) \<Rightarrow> vec \<Rightarrow> vec \<Rightarrow> double \<Rightarrow> double \<Rightarrow> double \<Rightarrow> double
     \<Rightarrow> MT \<Rightarrow> MT" where
  "mt_loop calc x step_dir step_max step_min phi_0 d_phi_0 s =
     (if mt_continue d_phi_0 s
      then mt_loop calc x step_dir step_max step_min phi_0 d_phi_0
             (mt_body calc x step_dir step_max step_min phi_0 d_phi_0 s)
      else s)"
  by pat_completeness auto
termination
  by (relation "measure (\<lambda>(calc, x, step_dir, step_max, step_min, phi_0, d_phi_0, s).
                   10 - mt_step_iterations s)")
     (auto simp: mt_continue_def mt_body_def Let_def split: prod.splits)

declare mt_loop.simps [simp del]

text \<open>The state in which the loop is entered: the first trial step is the clamped
  \<^verbatim>\<open>step_init\<close>, and the score is evaluated there.\<close>

definition mt_init ::
  "(vec \<Rightarrow> bool \<Rightarrow> ScoreAndDerivatives) \<Rightarrow> vec \<Rightarrow> vec \<Rightarrow> double \<Rightarrow> double \<Rightarrow> double \<Rightarrow> double
     \<Rightarrow> double \<Rightarrow> MT" where
  "mt_init calc x step_dir step_init step_max step_min phi_0 d_phi_0 =
     (let mu = Fin (1 / 10000);
          a_l = Fin 0; a_u = Fin 0;
          f_l = auxilaryFunction_PsiMT a_l phi_0 phi_0 d_phi_0 mu;
          g_l = auxilaryFunction_dPsiMT d_phi_0 d_phi_0 mu;
          f_u = auxilaryFunction_PsiMT a_u phi_0 phi_0 d_phi_0 mu;
          g_u = auxilaryFunction_dPsiMT d_phi_0 d_phi_0 mu;
          interval_converged = (Fin 0 < step_max - step_min);
          a_t0 = step_init;
          a_t1 = std_min a_t0 step_max;
          a_t = std_max a_t1 step_min;
          x_t = vadd x (vscale step_dir a_t);
          score_vals = calc x_t False;
          phi_t = - sd_value score_vals;
          d_phi_t = - dot (sd_gradient score_vals) step_dir;
          psi_t = auxilaryFunction_PsiMT a_t phi_t phi_0 d_phi_0 mu;
          d_psi_t = auxilaryFunction_dPsiMT d_phi_t d_phi_0 mu
      in \<lparr>mt_a_l = a_l, mt_f_l = f_l, mt_g_l = g_l, mt_a_u = a_u, mt_f_u = f_u, mt_g_u = g_u,
          mt_interval_converged = interval_converged, mt_open_interval = True,
          mt_a_t = a_t, mt_phi_t = phi_t, mt_d_phi_t = d_phi_t, mt_psi_t = psi_t,
          mt_d_psi_t = d_psi_t, mt_step_iterations = 0\<rparr>)"

text \<open>
  \<^verbatim>\<open>computeStepLengthMT\<close> up to its search: the value of phi'(0), the early return of 0 when
  it is zero, the reversal of \<^verbatim>\<open>step_dir\<close> (a reference: the caller sees it) when it is
  positive. The result is \<open>None\<close> for the early return, else the state in which the loop
  ends, with the direction used.
\<close>

definition mt_search ::
  "(vec \<Rightarrow> bool \<Rightarrow> ScoreAndDerivatives) \<Rightarrow> vec \<Rightarrow> vec \<Rightarrow> double \<Rightarrow> double \<Rightarrow> double
     \<Rightarrow> ScoreAndDerivatives \<Rightarrow> (MT \<times> vec) option" where
  "mt_search calc x step_dir step_init step_max step_min score =
     (let phi_0 = - sd_value score;
          d_phi_0 = - dot (sd_gradient score) step_dir
      in if Fin 0 \<le> d_phi_0
         then (if feq d_phi_0 (Fin 0) then None
               else
                 let d_phi_0r = d_phi_0 * Fin (- 1);
                     step_dir_r = vscale step_dir (Fin (- 1))
                 in Some (mt_loop calc x step_dir_r step_max step_min phi_0 d_phi_0r
                            (mt_init calc x step_dir_r step_init step_max step_min phi_0 d_phi_0r),
                          step_dir_r))
         else Some (mt_loop calc x step_dir step_max step_min phi_0 d_phi_0
                      (mt_init calc x step_dir step_init step_max step_min phi_0 d_phi_0),
                    step_dir))"

text \<open>The returned step length, with the direction as the caller finds it afterwards.\<close>

definition computeStepLengthMT ::
  "(vec \<Rightarrow> bool \<Rightarrow> ScoreAndDerivatives) \<Rightarrow> vec \<Rightarrow> vec \<Rightarrow> double \<Rightarrow> double \<Rightarrow> double
     \<Rightarrow> ScoreAndDerivatives \<Rightarrow> double \<times> vec" where
  "computeStepLengthMT calc x step_dir step_init step_max step_min score =
     (case mt_search calc x step_dir step_init step_max step_min score of
        None \<Rightarrow> (Fin 0, step_dir)
      | Some (s, dir) \<Rightarrow> (mt_a_t s, dir))"

section \<open>The registration objects\<close>

text \<open>
  A point cloud is the list of its points. The members that both classes inherit from
  \<^verbatim>\<open>pcl::Registration\<close> form the record \<open>Registration\<close>; the class
  \<^verbatim>\<open>D2DNormalDistributionsTransform2D\<close> extends it with its own members. The layer count is a
  \<^verbatim>\<open>size_t\<close>, the cell sizes are \<^verbatim>\<open>float\<close>s.
\<close>

type_synonym cloud = "vec list"

record Registration =
  input :: cloud
  target :: cloud
  nr_iterations :: int
  max_iterations :: int
  converged :: bool
  final_transformation :: mat
  previous_transformation :: mat
  transformation :: mat
  transformation_epsilon :: double

record D2D = Registration +
  cell_sizes :: "double list"
  step_size :: double
  outlier_ratio :: double
  params :: "FittingParams list"
  trans_probability :: double
  covariance :: mat
  inform_matrix :: mat
  layer_count :: nat

text \<open>
  What the classes call in PCL and OpenMP, as parameters: the voxel grids built from a cloud
  at a leaf size (\<^verbatim>\<open>setLeafSize\<close>, \<^verbatim>\<open>setInputCloud\<close>, \<^verbatim>\<open>filter(true)\<close>), \<^verbatim>\<open>transformPointCloud\<close>,
  the score of the validator's lookup table (\<^verbatim>\<open>initGrid(target, cell_size, 0.5)\<close> followed by
  \<^verbatim>\<open>getScore(cloud)\<close>; its contract is a real number in [0, 1]), and the schedule that OpenMP
  chooses for a parallel loop of n iterations.
\<close>

record pcl =
  voxel_source :: "cloud \<Rightarrow> double \<Rightarrow> SourceGrid"
  voxel_target :: "cloud \<Rightarrow> double \<Rightarrow> TargetGrid"
  transformPointCloud :: "cloud \<Rightarrow> mat \<Rightarrow> cloud"
  lookup_score :: "cloud \<Rightarrow> real \<Rightarrow> cloud \<Rightarrow> real"
  omp :: "nat \<Rightarrow> (nat \<times> nat) list"

section \<open>Newton iteration at one resolution\<close>

text \<open>\<^verbatim>\<open>delta_xytheta_p.normalize()\<close> on a vector whose norm is neither zero nor NaN.\<close>

definition normalize :: "vec \<Rightarrow> vec" where
  "normalize v = vec3 (v 0 / norm3 v) (v 1 / norm3 v) (v 2 / norm3 v)"

text \<open>
  One pass through the body of \<^verbatim>\<open>while (!converged_)\<close> in \<^verbatim>\<open>computeSingleGrid\<close>. \<open>Inl\<close> is
  the \<^verbatim>\<open>return false\<close> inside the loop, with the object as it is left; \<open>Inr\<close> is the end of
  the body, with the object, \<^verbatim>\<open>xytheta_p\<close>, \<^verbatim>\<open>p\<close> and \<^verbatim>\<open>score\<close>.
\<close>

definition newton_body ::
  "eigen \<Rightarrow> pcl \<Rightarrow> SourceGrid \<Rightarrow> TargetGrid \<Rightarrow> FittingParams \<Rightarrow> D2D \<Rightarrow> vec
     \<Rightarrow> D2D + D2D \<times> vec \<times> mat \<times> ScoreAndDerivatives" where
  "newton_body E P source_grid target_grid param st xytheta_p =
     (let score = calcScore E (omp P (length source_grid)) param source_grid xytheta_p
                    target_grid True;
          delta_xytheta_p = svd_solve E (sd_hessian score) (vneg (sd_gradient score));
          delta_p_norm = norm3 delta_xytheta_p
      in if feq delta_p_norm (Fin 0) \<or> \<not> feq delta_p_norm delta_p_norm
         then Inl (st\<lparr>trans_probability := sd_value score / Fin (real (length (input st))),
                      converged := feq delta_p_norm delta_p_norm,
                      covariance := mat_identity 3,
                      inform_matrix := mat_identity 3\<rparr>)
         else
           let delta_n = normalize delta_xytheta_p;
               (step, step_dir) =
                  computeStepLengthMT
                    (\<lambda>x_t calc_hessian. calcScore E (omp P (length source_grid)) param source_grid
                        x_t target_grid calc_hessian)
                    xytheta_p delta_n delta_p_norm (step_size st)
                    (transformation_epsilon st / Fin 2) score;
               delta_s = vscale step_dir step;
               xytheta_p' = vadd xytheta_p delta_s;
               p = vecToMat cast_float xytheta_p';
               st1 = st\<lparr>nr_iterations := nr_iterations st + 1,
                         previous_transformation := transformation st,
                         transformation := p,
                         trans_probability := sd_value score / Fin (real (length (input st)))\<rparr>;
               st2 = (if max_iterations st1 \<le> nr_iterations st1 \<or>
                         (nr_iterations st1 \<noteq> 0 \<and> fabs step < transformation_epsilon st1)
                      then st1\<lparr>converged := True\<rparr> else st1)
           in Inr (st2, xytheta_p', p, score))"

function newton_loop ::
  "eigen \<Rightarrow> pcl \<Rightarrow> SourceGrid \<Rightarrow> TargetGrid \<Rightarrow> FittingParams \<Rightarrow> D2D \<Rightarrow> vec \<Rightarrow> mat
     \<Rightarrow> ScoreAndDerivatives \<Rightarrow> D2D + D2D \<times> mat \<times> ScoreAndDerivatives" where
  "newton_loop E P source_grid target_grid param st xytheta_p p score =
     (if converged st then Inr (st, p, score)
      else case newton_body E P source_grid target_grid param st xytheta_p of
             Inl st' \<Rightarrow> Inl st'
           | Inr (st', xytheta_p', p', score') \<Rightarrow>
               newton_loop E P source_grid target_grid param st' xytheta_p' p' score')"
  by pat_completeness auto
termination
  by (relation "measure (\<lambda>(E, P, source_grid, target_grid, param, st, xytheta_p, p, score).
                   if converged st then 0 else Suc (nat (max_iterations st - nr_iterations st)))")
     (auto simp: newton_body_def Let_def split: if_splits prod.splits)

declare newton_loop.simps [simp del]

text \<open>The state in which iteration \<open>k\<close> of the loop starts, counted from the state in which
  the loop is entered; \<open>None\<close> when the loop has ended before.\<close>

fun newton_iter ::
  "eigen \<Rightarrow> pcl \<Rightarrow> SourceGrid \<Rightarrow> TargetGrid \<Rightarrow> FittingParams \<Rightarrow> nat
     \<Rightarrow> D2D \<times> vec \<times> mat \<times> ScoreAndDerivatives
     \<Rightarrow> (D2D \<times> vec \<times> mat \<times> ScoreAndDerivatives) option" where
  "newton_iter E P source_grid target_grid param 0 s = Some s"
| "newton_iter E P source_grid target_grid param (Suc k) (st, xytheta_p, p, score) =
     (if converged st then None
      else case newton_body E P source_grid target_grid param st xytheta_p of
             Inl st' \<Rightarrow> None
           | Inr s' \<Rightarrow> newton_iter E P source_grid target_grid param k s')"

text \<open>
  \<^verbatim>\<open>computeSingleGrid\<close>. The caller passes the same matrix as \<^verbatim>\<open>guess\<close> and as \<^verbatim>\<open>trans\<close>;
  \<^verbatim>\<open>trans\<close> is written only after the loop, so the failing return leaves it as it was. The
  local \<^verbatim>\<open>p\<close> is declared without a value and \<^verbatim>\<open>score\<close> with the zero triple; the loop runs
  at least once, since \<^verbatim>\<open>converged_\<close> is false when it starts. The result is the returned
  flag, the object, and \<^verbatim>\<open>trans\<close>.
\<close>

definition computeSingleGrid ::
  "eigen \<Rightarrow> pcl \<Rightarrow> D2D \<Rightarrow> SourceGrid \<Rightarrow> mat \<Rightarrow> TargetGrid \<Rightarrow> FittingParams \<Rightarrow> bool \<times> D2D \<times> mat" where
  "computeSingleGrid E P st source_grid guess target_grid param =
     (let st0 = st\<lparr>nr_iterations := 0, converged := False, final_transformation := guess,
                   previous_transformation := guess\<rparr>;
          xytheta_p = matToVec E guess
      in case newton_loop E P source_grid target_grid param st0 xytheta_p mat_zero Zero of
           Inl st' \<Rightarrow> (False, st', guess)
         | Inr (st', p, score) \<Rightarrow>
             (True, st'\<lparr>covariance := sd_hessian score,
                       inform_matrix := mat_inverse E (sd_hessian score)\<rparr>, p))"

section \<open>Multi-resolution schedule\<close>

text \<open>
  The loop of \<^verbatim>\<open>computeTransformation\<close> over the resolutions, with \<^verbatim>\<open>params_[i]\<close> beside
  \<^verbatim>\<open>cell_sizes_[i]\<close> (every setter that changes the cell sizes rebuilds \<^verbatim>\<open>params_\<close> with the
  same length). \<open>Inl\<close> is the \<^verbatim>\<open>return\<close> inside the loop.
\<close>

fun resolutions_loop ::
  "eigen \<Rightarrow> pcl \<Rightarrow> D2D \<Rightarrow> mat \<Rightarrow> (double \<times> FittingParams) list \<Rightarrow> D2D + D2D \<times> mat" where
  "resolutions_loop E P st trans_m [] = Inr (st, trans_m)"
| "resolutions_loop E P st trans_m ((cell_size, param) # rest) =
     (let target_grid = voxel_target P (target st) cell_size;
          source_grid = voxel_source P (input st) cell_size
      in case computeSingleGrid E P st source_grid trans_m target_grid param of
           (ok, st', trans_m') \<Rightarrow>
             if \<not> ok then Inl (st'\<lparr>converged := False\<rparr>)
             else resolutions_loop E P st' trans_m' rest)"

text \<open>The object and the pose after the resolutions of a list, when each of them succeeds;
  \<open>None\<close> when one fails.\<close>

fun resolutions_prefix ::
  "eigen \<Rightarrow> pcl \<Rightarrow> (double \<times> FittingParams) list \<Rightarrow> D2D \<times> mat \<Rightarrow> (D2D \<times> mat) option" where
  "resolutions_prefix E P [] s = Some s"
| "resolutions_prefix E P ((csize, param) # rest) (st, trans_m) =
     (case computeSingleGrid E P st (voxel_source P (input st) csize) trans_m
             (voxel_target P (target st) csize) param of
        (ok, st', trans_m') \<Rightarrow>
          if ok then resolutions_prefix E P rest (st', trans_m') else None)"

definition computeTransformation :: "eigen \<Rightarrow> pcl \<Rightarrow> D2D \<Rightarrow> cloud \<Rightarrow> mat \<Rightarrow> D2D \<times> cloud" where
  "computeTransformation E P st output guess =
     (case resolutions_loop E P st guess (zip (cell_sizes st) (params st)) of
        Inl st' \<Rightarrow> (st', output)
      | Inr (st', trans_m) \<Rightarrow>
          (st'\<lparr>final_transformation := trans_m, converged := True\<rparr>,
           transformPointCloud P (input st') trans_m))"

section \<open>Configuration\<close>

text \<open>
  \<^verbatim>\<open>initCellSizes(float base_size)\<close> counts \<^verbatim>\<open>int i\<close> down from \<^verbatim>\<open>layer_count_ - 1\<close>, a
  \<^verbatim>\<open>size_t\<close> value converted to \<^verbatim>\<open>int\<close>: the subtraction wraps at 64 bits and the conversion
  keeps the low 32 bits as a signed number.
\<close>

definition to_int32 :: "int \<Rightarrow> int" where
  "to_int32 n = (n + 2 ^ 31) mod 2 ^ 32 - 2 ^ 31"

function initCellSizes_loop :: "double \<Rightarrow> int \<Rightarrow> double list \<Rightarrow> double list" where
  "initCellSizes_loop base_size i cs =
     (if 0 \<le> i
      then initCellSizes_loop base_size (i - 1) (cs @ [to_float (base_size * pow_2 (nat i))])
      else cs)"
  by pat_completeness auto
termination
  by (relation "measure (\<lambda>(base_size, i, cs). nat (i + 1))") auto

declare initCellSizes_loop.simps [simp del]

definition initCellSizes :: "D2D \<Rightarrow> double \<Rightarrow> bool \<times> D2D" where
  "initCellSizes st base_size =
     (True, st\<lparr>cell_sizes :=
                 initCellSizes_loop base_size
                   (to_int32 ((int (layer_count st) - 1) mod 2 ^ 64)) []\<rparr>)"

text \<open>In \<^verbatim>\<open>1/cell_sizes_[i]\<close> both operands are floats, and so is the quotient.\<close>

definition initParams :: "D2D \<Rightarrow> D2D" where
  "initParams st =
     st\<lparr>params := map (\<lambda>c. calcParams (outlier_ratio st) (to_float (Fin 1 / c))) (cell_sizes st)\<rparr>"

definition setCellSize :: "D2D \<Rightarrow> double \<Rightarrow> D2D" where
  "setCellSize st cell_size =
     (case initCellSizes st cell_size of (changed, st') \<Rightarrow> if changed then initParams st' else st')"

definition setCellSize_vector :: "D2D \<Rightarrow> double list \<Rightarrow> D2D" where
  "setCellSize_vector st sizes =
     initParams (st\<lparr>layer_count := length sizes, cell_sizes := rev (std_sort sizes)\<rparr>)"

definition setOulierRatio :: "D2D \<Rightarrow> double \<Rightarrow> D2D" where
  "setOulierRatio st r = initParams (st\<lparr>outlier_ratio := r\<rparr>)"

definition getCellSizes :: "D2D \<Rightarrow> double list" where
  "getCellSizes st = cell_sizes st"

text \<open>
  The constructor, applied to the object as the base class and the default initialisation of
  the members leave it. (\<^verbatim>\<open>setNumLayers\<close> calls \<^verbatim>\<open>initCellSizes()\<close> without an argument, a
  member function that the class does not declare; it has no model.)
\<close>

definition D2DNormalDistributionsTransform2D :: "D2D \<Rightarrow> D2D" where
  "D2DNormalDistributionsTransform2D raw =
     (let st = raw\<lparr>step_size := Fin (1 / 10), outlier_ratio := Fin (55 / 100),
                    trans_probability := Fin 0, layer_count := 4, nr_iterations := 0,
                    max_iterations := 35, transformation_epsilon := Fin (1 / 10),
                    converged := False\<rparr>
      in initParams (snd (initCellSizes st (Fin (1 / 4)))))"

section \<open>Robust wrapper\<close>

text \<open>
  \<^verbatim>\<open>D2DNormalDistributionsTransform2DRobust\<close> holds a D2D object, a correlative estimator and
  an ICP object. Their \<^verbatim>\<open>align(output, guess)\<close> is the method of the PCL base class; it is a
  parameter that takes the object and the output cloud and returns both as it leaves them.
\<close>

record Robust = Registration +
  d2d :: D2D
  corr_est :: Registration
  icp :: Registration
  cell_size :: real
  robust_trans_probability :: double

record aligners =
  d2d_align :: "D2D \<Rightarrow> cloud \<Rightarrow> mat \<Rightarrow> D2D \<times> cloud"
  corr_align :: "Registration \<Rightarrow> cloud \<Rightarrow> mat \<Rightarrow> Registration \<times> cloud"

definition proofTransform :: "pcl \<Rightarrow> Robust \<Rightarrow> mat \<Rightarrow> real" where
  "proofTransform P st trans_m =
     lookup_score P (target st) (cell_size st) (transformPointCloud P (input st) trans_m)"

text \<open>The part of \<^verbatim>\<open>computeTransformation\<close> from \<^verbatim>\<open>double score2 = ...\<close> to its end.\<close>

definition robust_arbitrate :: "pcl \<Rightarrow> Robust \<Rightarrow> real \<Rightarrow> mat \<Rightarrow> Robust \<times> cloud" where
  "robust_arbitrate P st score first_trans =
     (let score2 = proofTransform P st (final_transformation (d2d st));
          st' = (if score2 < 4 / 10
                 then (if 6 / 10 < score
                       then st\<lparr>converged := True, final_transformation := first_trans\<rparr>
                       else st\<lparr>converged := False, final_transformation := mat_identity 4\<rparr>)
                 else st\<lparr>converged := True,
                         final_transformation := final_transformation (d2d st)\<rparr>)
      in (st', transformPointCloud P (input st') (final_transformation st')))"

text \<open>\<^verbatim>\<open>computeTransformation(output, guess)\<close> of the wrapper. The local \<^verbatim>\<open>first_trans\<close> is
  declared without a value; \<open>first_trans0\<close> is what it holds then.\<close>

definition robust_computeTransformation ::
  "pcl \<Rightarrow> aligners \<Rightarrow> mat \<Rightarrow> Robust \<Rightarrow> cloud \<Rightarrow> mat \<Rightarrow> Robust \<times> cloud" where
  "robust_computeTransformation P A first_trans0 st output guess =
     (case d2d_align A (d2d st) output guess of
        (d1, out1) \<Rightarrow>
          let st1 = st\<lparr>d2d := d1\<rparr>;
              score = proofTransform P st1 (final_transformation d1)
          in if \<not> (converged d1 \<and> 7 / 10 < score)
             then
               let first_trans = final_transformation d1
               in case corr_align A (corr_est st1) out1 guess of
                    (c1, out2) \<Rightarrow>
                      let st2 = st1\<lparr>corr_est := c1\<rparr>
                      in if \<not> converged c1
                         then (st2\<lparr>converged := False, final_transformation := mat_identity 4\<rparr>,
                               out2)
                         else
                           case d2d_align A (d2d st2) out2 (final_transformation c1) of
                             (d2, out3) \<Rightarrow>
                               let st3 = st2\<lparr>d2d := d2\<rparr>
                               in if \<not> converged d2
                                  then (st3\<lparr>converged := False,
                                            final_transformation := mat_identity 4\<rparr>, out3)
                                  else robust_arbitrate P st3 score first_trans
             else robust_arbitrate P st1 score first_trans0)"

text \<open>
  The staged arbitration in the words of the specification, with the thresholds 0.7, 0.6 and
  0.4: accept the first result, or report no alignment after a failed seed or rerun, or
  accept the rerun, or salvage the first result, or report no alignment.
\<close>

definition accept :: "pcl \<Rightarrow> Robust \<Rightarrow> mat \<Rightarrow> Robust \<times> cloud" where
  "accept P st T = (st\<lparr>converged := True, final_transformation := T\<rparr>,
                    transformPointCloud P (input st) T)"

definition no_alignment :: "Robust \<Rightarrow> Robust" where
  "no_alignment st = st\<lparr>converged := False, final_transformation := mat_identity 4\<rparr>"

definition staged_arbitration ::
  "pcl \<Rightarrow> aligners \<Rightarrow> Robust \<Rightarrow> cloud \<Rightarrow> mat \<Rightarrow> Robust \<times> cloud" where
  "staged_arbitration P A st output guess =
     (case d2d_align A (d2d st) output guess of
        (d1, out1) \<Rightarrow>
          let T1 = final_transformation d1;
              s1 = proofTransform P st T1
          in if converged d1 \<and> s1 > 7 / 10 then accept P (st\<lparr>d2d := d1\<rparr>) T1
             else
               case corr_align A (corr_est st) out1 guess of
                 (c, out2) \<Rightarrow>
                   if \<not> converged c then (no_alignment (st\<lparr>d2d := d1, corr_est := c\<rparr>), out2)
                   else
                     case d2d_align A d1 out2 (final_transformation c) of
                       (d2, out3) \<Rightarrow>
                         if \<not> converged d2
                         then (no_alignment (st\<lparr>corr_est := c, d2d := d2\<rparr>), out3)
                         else
                           let T2 = final_transformation d2;
                               s2 = proofTransform P st T2
                           in if s2 \<ge> 4 / 10 then accept P (st\<lparr>corr_est := c, d2d := d2\<rparr>) T2
                              else if s1 > 6 / 10
                              then accept P (st\<lparr>corr_est := c, d2d := d2\<rparr>) T1
                              else (no_alignment (st\<lparr>corr_est := c, d2d := d2\<rparr>),
                                    transformPointCloud P (input st) (mat_identity 4)))"

section \<open>Concrete inputs\<close>

text \<open>
  Inputs on which the properties below are evaluated. The target cell \<open>ex_cell\<close> has the
  covariance with 3/4 on the diagonal and -1/4 elsewhere; its determinant is 1/4 and its
  inverse is \<open>ex_icov\<close>, with 2 on the diagonal and 1 elsewhere. \<open>ex_eigen\<close> returns this
  inverse, solves with the identity and takes the linear part of a transform as its rotation;
  \<open>ex_eigen_singular\<close> reports a matrix that is not invertible (the zero matrix).
\<close>

definition ex_icov :: mat where
  "ex_icov = mat33 (\<lambda>i j. if i = j then Fin 2 else Fin 1)"

definition ex_cell :: Leaf where
  "ex_cell = \<lparr>getMean = vec_zero,
              getCov = mat33 (\<lambda>i j. if i = j then Fin (3 / 4) else Fin (- (1 / 4)))\<rparr>"

definition ex_cell_zero :: Leaf where
  "ex_cell_zero = \<lparr>getMean = vec_zero, getCov = mat_zero\<rparr>"

definition ex_eigen :: eigen where
  "ex_eigen = \<lparr>inverse_check = (\<lambda>S. (ex_icov, Fin (1 / 4), True)),
               mat_inverse = (\<lambda>A. A),
               svd_solve = (\<lambda>H g. g),
               rotation_part = (\<lambda>T. block33 T 0 0)\<rparr>"

definition ex_eigen_singular :: eigen where
  "ex_eigen_singular = \<lparr>inverse_check = (\<lambda>S. (mat_zero, Fin 0, False)),
               mat_inverse = (\<lambda>A. A),
               svd_solve = (\<lambda>H g. g),
               rotation_part = (\<lambda>T. block33 T 0 0)\<rparr>"

definition ex_param :: FittingParams where
  "ex_param = \<lparr>gauss_d1 = Fin (- 1), gauss_d2 = Fin 1, gauss_d2_half = Fin (1 / 2)\<rparr>"

text \<open>A solver whose result is NaN, as on a Hessian with a NaN entry.\<close>

definition ex_eigen_nan :: eigen where
  "ex_eigen_nan = \<lparr>inverse_check = (\<lambda>S. (mat_zero, Fin 0, False)),
               mat_inverse = (\<lambda>A. A),
               svd_solve = (\<lambda>H g. vec3 NaN NaN NaN),
               rotation_part = (\<lambda>T. block33 T 0 0)\<rparr>"

text \<open>Clouds too sparse for any voxel to hold a distribution: both grids are empty. The
  loop over the cells runs on thread 0 in the order of the cells.\<close>

definition ex_pcl :: pcl where
  "ex_pcl = \<lparr>voxel_source = (\<lambda>c s. []),
             voxel_target = (\<lambda>c s pt k. []),
             transformPointCloud = (\<lambda>c T. map (affine_apply T) c),
             lookup_score = (\<lambda>t s c. 0),
             omp = (\<lambda>n. map (\<lambda>i. (0, i)) [0..<n])\<rparr>"

text \<open>An object with a source cloud of two points, a single resolution, and the members of
  the base class as its constructor sets them.\<close>

definition ex_raw :: D2D where
  "ex_raw = \<lparr>input = [vec_zero, vec3 (Fin 1) (Fin 0) (Fin 0)], target = [vec_zero],
             nr_iterations = 0, max_iterations = 10, converged = False,
             final_transformation = mat_identity 4, previous_transformation = mat_identity 4,
             transformation = mat_identity 4, transformation_epsilon = Fin 0,
             cell_sizes = [Fin 1], step_size = Fin (1 / 10), outlier_ratio = Fin (55 / 100),
             params = [ex_param], trans_probability = Fin 0, covariance = mat_zero,
             inform_matrix = mat_zero, layer_count = 1\<rparr>"

text \<open>A pair of grids for the line search: the source grid has one leaf, at the origin with
  zero covariance; the target grid has one leaf, at the origin with the identity as its
  covariance, and the neighbourhood search returns it for every query. The sum of the two
  covariances is then the identity at every pose, and \<open>ex_eigen_id\<close> gives its inverse and its
  determinant. The parallel loop runs its one iteration on thread 0.\<close>

definition ex_eigen_id :: eigen where
  "ex_eigen_id = \<lparr>inverse_check = (\<lambda>S. (mat_identity 3, Fin 1, True)),
               mat_inverse = (\<lambda>A. A),
               svd_solve = (\<lambda>H g. g),
               rotation_part = (\<lambda>T. block33 T 0 0)\<rparr>"

definition ex_target :: Leaf where
  "ex_target = \<lparr>getMean = vec_zero, getCov = mat_identity 3\<rparr>"

definition ex_calc :: "vec \<Rightarrow> bool \<Rightarrow> ScoreAndDerivatives" where
  "ex_calc x_t calc_hessian =
     calcScore ex_eigen_id [(0, 0)] ex_param [ex_cell_zero] x_t (\<lambda>pt k. [ex_target]) calc_hessian"

section \<open>Arithmetic of doubles\<close>

text \<open>Addition of doubles is commutative and associative with zero as its identity, also on
  NaN and the infinities; doubling distributes over a difference.\<close>

lemma dadd_commute: "dadd a b = dadd b a"
  by (cases a; cases b) simp_all

lemma dadd_assoc: "dadd (dadd a b) c = dadd a (dadd b c)"
  by (cases a; cases b; cases c) simp_all

lemma dadd_zero_left: "dadd (Fin 0) a = a"
  by (cases a) simp_all

lemma two_distrib: "dadd (dmul (Fin 2) a) (dneg (dmul (Fin 2) b)) = dmul (Fin 2) (dadd a (dneg b))"
  by (cases a; cases b) simp_all


section \<open>Rounding to float\<close>

text \<open>A value is a fixed point of the rounding when it is a multiple of the unit of its
  binade; the fixed points are closed under doubling; the rounding moves a value by at most
  half a unit.\<close>

lemma rne_of_int: "rne (of_int n) = n"
  by (simp add: rne_def Let_def)

lemma round_binary_fixed_iff:
  assumes "x \<noteq> 0"
  shows "round_binary p emin x = x
     \<longleftrightarrow> (\<exists>n. \<bar>x\<bar> = of_int n * 2 powr (of_int (binary_exponent emin x) - (real p - 1)))"
proof -
  let ?u = "2 powr (of_int (binary_exponent emin x) - (real p - 1))"
  have u: "0 < ?u" by simp
  have r: "round_binary p emin x = sgn x * of_int (rne (\<bar>x\<bar> / ?u)) * ?u"
    using assms by (simp add: round_binary_def Let_def)
  show ?thesis
  proof
    assume "round_binary p emin x = x"
    then have "sgn x * (of_int (rne (\<bar>x\<bar> / ?u)) * ?u) = sgn x * \<bar>x\<bar>"
      using r by (simp add: mult.assoc sgn_mult_abs)
    then have "of_int (rne (\<bar>x\<bar> / ?u)) * ?u = \<bar>x\<bar>"
      using assms by (simp add: sgn_real_def split: if_splits)
    then show "\<exists>n. \<bar>x\<bar> = of_int n * ?u" by metis
  next
    assume "\<exists>n. \<bar>x\<bar> = of_int n * ?u"
    then obtain n where n: "\<bar>x\<bar> = of_int n * ?u" ..
    then have "\<bar>x\<bar> / ?u = of_int n" using u by simp
    then have "of_int (rne (\<bar>x\<bar> / ?u)) * ?u = \<bar>x\<bar>"
      using n by (simp add: rne_of_int)
    then show "round_binary p emin x = x"
      using r by (simp add: mult.assoc sgn_mult_abs)
  qed
qed

lemma floor_log2_double:
  assumes "x \<noteq> 0"
  shows "\<lfloor>log 2 \<bar>2 * x\<bar>\<rfloor> = \<lfloor>log 2 \<bar>x\<bar>\<rfloor> + 1"
proof -
  have "log 2 \<bar>2 * x\<bar> = log 2 \<bar>x\<bar> + 1"
    using assms by (simp add: abs_mult log_mult)
  then show ?thesis by simp
qed

lemma round_binary_double:
  assumes "round_binary p emin x = x"
  shows "round_binary p emin (2 * x) = 2 * x"
proof (cases "x = 0")
  case True
  then show ?thesis by (simp add: round_binary_def)
next
  case False
  then have x2: "2 * x \<noteq> 0" by simp
  let ?e = "binary_exponent emin x"
  let ?e2 = "binary_exponent emin (2 * x)"
  obtain n where n: "\<bar>x\<bar> = of_int n * 2 powr (of_int ?e - (real p - 1))"
    using assms round_binary_fixed_iff [OF False] by blast
  consider "?e2 = ?e + 1" | "?e2 = ?e"
    unfolding binary_exponent_def floor_log2_double [OF False] by linarith
  then have "\<exists>m. \<bar>2 * x\<bar> = of_int m * 2 powr (of_int ?e2 - (real p - 1))"
  proof cases
    case 1
    have "of_int ?e2 - (real p - 1) = 1 + (of_int ?e - (real p - 1))"
      unfolding 1 by simp
    then have "2 powr (of_int ?e2 - (real p - 1)) = 2 * 2 powr (of_int ?e - (real p - 1))"
      by (simp only: powr_add) simp
    then have "\<bar>2 * x\<bar> = of_int n * 2 powr (of_int ?e2 - (real p - 1))"
      using n by (simp add: abs_mult)
    then show ?thesis ..
  next
    case 2
    have "\<bar>2 * x\<bar> = of_int (2 * n) * 2 powr (of_int ?e2 - (real p - 1))"
      unfolding 2 using n by (simp add: abs_mult)
    then show ?thesis ..
  qed
  then show ?thesis using round_binary_fixed_iff [OF x2] by blast
qed

lemma round_binary_pow2:
  "round_binary p emin x = x \<Longrightarrow> round_binary p emin (x * 2 ^ i) = x * 2 ^ i"
proof (induction i)
  case 0
  then show ?case by simp
next
  case (Suc i)
  have "round_binary p emin (2 * (x * 2 ^ i)) = 2 * (x * 2 ^ i)"
    by (rule round_binary_double) (rule Suc.IH [OF Suc.prems])
  then show ?case by (simp add: mult.commute mult.left_commute)
qed




text \<open>The rounding of a value whose binade is known, for the evaluation at a number.\<close>

lemma round_binary_eval:
  assumes "x \<noteq> 0" and "2 powr of_int k \<le> \<bar>x\<bar>" and "\<bar>x\<bar> < 2 powr (of_int k + 1)"
  shows "round_binary p emin x =
           sgn x * of_int (rne (\<bar>x\<bar> / 2 powr (of_int (max k emin) - (real p - 1))))
             * 2 powr (of_int (max k emin) - (real p - 1))"
proof -
  have "\<lfloor>log 2 \<bar>x\<bar>\<rfloor> = k"
    using assms by (subst floor_log_eq_powr_iff) auto
  then show ?thesis using assms(1) by (simp add: round_binary_def binary_exponent_def Let_def)
qed

lemma to_float_zero: "to_float (Fin 0) = Fin 0"
  by (simp add: round_binary_def)


section \<open>Fitting constants: no validation\<close>

text \<open>
  C4 (amended). Constructing \<open>FittingParams\<close> never fails: the constructor and \<open>calcParams\<close>
  hold no check, so for every outlier ratio r and every resolution, also for r outside (0, 1)
  and for a resolution that comes from a cell size that is not positive, the constructor
  returns the fields d1 = -log(c1 + c2) - d3, d2 = -2 log((-log(c1 exp(-1/2) + c2) - d3) / d1)
  and d2_half = d2 / 2, with c1 = 10 (1 - r), c2 = r / resolution^2 and d3 = -log(c2), as the
  arithmetic of doubles evaluates them, infinite or NaN included; no \<open>InvalidParameter\<close> is
  raised. \<open>initParams\<close> constructs one such value for each cell size, from the resolution
  1 / cell size computed on floats.
\<close>

theorem FittingParams_ctor_total:
  "(\<exists>p. FittingParams_ctor ratio res = Inr p
         \<and> gauss_d1 p = - dlog (Fin 10 * (Fin 1 - ratio) + ratio / pow2 res)
                          - (- dlog (ratio / pow2 res))
         \<and> gauss_d2 p = Fin (- 2) *
               dlog ((- dlog (Fin 10 * (Fin 1 - ratio) * dexp (Fin (- (1 / 2))) + ratio / pow2 res)
                      - (- dlog (ratio / pow2 res))) / gauss_d1 p)
         \<and> gauss_d2_half p = gauss_d2 p / Fin 2)
   \<and> map Inr (params (initParams st))
       = map (\<lambda>c. FittingParams_ctor (outlier_ratio st) (to_float (Fin 1 / c))) (cell_sizes st)"
  by (simp add: FittingParams_ctor_def calcParams_def initParams_def Let_def
        del: to_float.simps)

text \<open>
  C4 as stated fails: at the outlier ratio 0, and at the cell size 0 (the resolution 1 / 0 is
  infinite), the constructor returns fields that are infinite or NaN instead of failing with
  \<open>InvalidParameter\<close>.
\<close>

theorem FittingParams_ctor_accepts_invalid:
  "FittingParams_ctor (Fin 0) (Fin 1)
     = Inr \<lparr>gauss_d1 = NInf, gauss_d2 = NaN, gauss_d2_half = NaN\<rparr>
   \<and> FittingParams_ctor (Fin 0) (Fin 1) \<noteq> Inl InvalidParameter
   \<and> to_float (Fin 1 / Fin 0) = PInf
   \<and> FittingParams_ctor (Fin (55 / 100)) (to_float (Fin 1 / Fin 0))
     = Inr \<lparr>gauss_d1 = NInf, gauss_d2 = NaN, gauss_d2_half = NaN\<rparr>
   \<and> FittingParams_ctor (Fin (55 / 100)) (to_float (Fin 1 / Fin 0)) \<noteq> Inl InvalidParameter"
  by (simp add: FittingParams_ctor_def calcParams_def pow2_def Let_def)


section \<open>Derivative kit\<close>

text \<open>The four matrices of the kit, entry by entry.\<close>

lemma computeDerivatives_Jest:
  "Jest (computeDerivatives x cov data calc_hessian) = (\<lambda>i j. if i < 2 \<and> j < 2 then (if i = j then Fin 1 else Fin 0)
                  else if i = 0 \<and> j = 2 then - x 1
                  else if i = 1 \<and> j = 2 then x 0
                  else Fin 0)"
  unfolding computeDerivatives_def Let_def setZero_def set_block_def set_elem_def mat_zero_def
  by (intro ext) (auto simp: nth_Cons' less_Suc_eq numeral_2_eq_2)

lemma computeDerivatives_Hest:
  "Hest (computeDerivatives x cov data calc_hessian) = (\<lambda>i j. if calc_hessian \<and> j = 2 \<and> i = 6 then - x 0
                  else if calc_hessian \<and> j = 2 \<and> i = 7 then - x 1
                  else Fin 0)"
  unfolding computeDerivatives_def Let_def setZero_def set_block_def set_elem_def mat_zero_def
  by (intro ext) (auto simp: nth_Cons')

lemma computeDerivatives_Zest:
  "Zest (computeDerivatives x cov data calc_hessian) = (\<lambda>i j. if i = 0 \<and> j = 6 then Fin (- 2) * cov 0 1
                  else if i = 0 \<and> j = 7 then cov 0 0 - cov 1 1
                  else if i = 0 \<and> j = 8 then - cov 1 2
                  else if i = 1 \<and> j = 6 then cov 0 0 - cov 1 1
                  else if i = 1 \<and> j = 7 then Fin 2 * cov 0 1
                  else if i = 1 \<and> j = 8 then cov 0 2
                  else if i = 2 \<and> j = 6 then - cov 1 2
                  else if i = 2 \<and> j = 7 then cov 0 2
                  else Fin 0)"
  unfolding computeDerivatives_def Let_def setZero_def set_block_def set_elem_def mat_zero_def
  by (intro ext) (auto simp: nth_Cons' dadd_commute)

lemma computeDerivatives_ZHest:
  "ZHest (computeDerivatives x cov data calc_hessian) = (\<lambda>i j. if calc_hessian \<and> i = 6 \<and> j = 6 then Fin 2 * (cov 1 1 - cov 0 0)
                  else if calc_hessian \<and> i = 6 \<and> j = 7 then Fin (- 4) * cov 0 1
                  else if calc_hessian \<and> i = 6 \<and> j = 8 then - cov 0 2
                  else if calc_hessian \<and> i = 7 \<and> j = 6 then Fin (- 4) * cov 0 1
                  else if calc_hessian \<and> i = 7 \<and> j = 7 then Fin 2 * (cov 0 0 - cov 1 1)
                  else if calc_hessian \<and> i = 7 \<and> j = 8 then - cov 1 2
                  else if calc_hessian \<and> i = 8 \<and> j = 6 then - cov 0 2
                  else if calc_hessian \<and> i = 8 \<and> j = 7 then - cov 1 2
                  else Fin 0)"
  unfolding computeDerivatives_def Let_def setZero_def set_block_def set_elem_def mat_zero_def
  by (intro ext) (auto simp: nth_Cons' two_distrib)

text \<open>
  C7. For every mean x and covariance cov, \<open>computeDerivatives\<close> sets exactly the listed
  entries and leaves every other entry zero, whatever \<open>data\<close> held before: Jest has the 2x2
  identity at its top left, Jest[0,2] = -x1 and Jest[1,2] = x0; columns 6..8 of Zest hold the
  symmetric matrix built from C00, C01, C11, C02 and C12; and only when the Hessian is
  requested, rows 6..8 of column 2 of Hest are (-x0, -x1, 0) and rows and columns 6..8 of ZHest
  hold the second-derivative block.
\<close>

theorem computeDerivatives_entries:
  "computeDerivatives x cov data calc_hessian =
     \<lparr>Jest = (\<lambda>i j. if i < 2 \<and> j < 2 then (if i = j then Fin 1 else Fin 0)
                    else if i = 0 \<and> j = 2 then - x 1
                    else if i = 1 \<and> j = 2 then x 0
                    else Fin 0),
      Hest = (\<lambda>i j. if calc_hessian \<and> j = 2 \<and> i = 6 then - x 0
                    else if calc_hessian \<and> j = 2 \<and> i = 7 then - x 1
                    else Fin 0),
      Zest = (\<lambda>i j. if i = 0 \<and> j = 6 then Fin (- 2) * cov 0 1
                    else if i = 0 \<and> j = 7 then cov 0 0 - cov 1 1
                    else if i = 0 \<and> j = 8 then - cov 1 2
                    else if i = 1 \<and> j = 6 then cov 0 0 - cov 1 1
                    else if i = 1 \<and> j = 7 then Fin 2 * cov 0 1
                    else if i = 1 \<and> j = 8 then cov 0 2
                    else if i = 2 \<and> j = 6 then - cov 1 2
                    else if i = 2 \<and> j = 7 then cov 0 2
                    else Fin 0),
      ZHest = (\<lambda>i j. if calc_hessian \<and> i = 6 \<and> j = 6 then Fin 2 * (cov 1 1 - cov 0 0)
                    else if calc_hessian \<and> i = 6 \<and> j = 7 then Fin (- 4) * cov 0 1
                    else if calc_hessian \<and> i = 6 \<and> j = 8 then - cov 0 2
                    else if calc_hessian \<and> i = 7 \<and> j = 6 then Fin (- 4) * cov 0 1
                    else if calc_hessian \<and> i = 7 \<and> j = 7 then Fin 2 * (cov 0 0 - cov 1 1)
                    else if calc_hessian \<and> i = 7 \<and> j = 8 then - cov 1 2
                    else if calc_hessian \<and> i = 8 \<and> j = 6 then - cov 0 2
                    else if calc_hessian \<and> i = 8 \<and> j = 7 then - cov 1 2
                    else Fin 0)\<rparr>"
  by (rule JacobianHessianDerivatives.equality)
     (simp_all add: computeDerivatives_Jest computeDerivatives_Hest computeDerivatives_Zest
        computeDerivatives_ZHest)


section \<open>Pose codec\<close>









lemma vec3_nth: "vec3 a b c 0 = a" "vec3 a b c (Suc 0) = b" "vec3 a b c 2 = c"
  by (simp_all add: vec3_def)

lemma vecToMat_cast:
  assumes "cast (Fin x) = Fin x'" and "cast (Fin y) = Fin y'" and "cast (Fin t) = Fin t'"
  shows "vecToMat cast (vec3 (Fin x) (Fin y) (Fin t)) =
     (\<lambda>i j. if i = 0 then (if j = 0 then Fin (cos t') else if j = 1 then Fin (- sin t')
                          else if j = 3 then Fin x' else Fin 0)
            else if i = 1 then (if j = 0 then Fin (sin t') else if j = 1 then Fin (cos t')
                          else if j = 3 then Fin y' else Fin 0)
            else if i = 2 then (if j = 2 then Fin 1 else Fin 0)
            else if i = 3 then (if j = 3 then Fin 1 else Fin 0)
            else Fin 0)"
  unfolding vecToMat_def angle_axis_z_def Let_def set_block_def mat_identity_def mat33_def vec3_def
  using assms by (intro ext) (auto simp: nth_Cons')

lemma vecToMat_finite:
  "vecToMat cast_double (vec3 (Fin x) (Fin y) (Fin t)) =
     (\<lambda>i j. if i = 0 then (if j = 0 then Fin (cos t) else if j = 1 then Fin (- sin t)
                          else if j = 3 then Fin x else Fin 0)
            else if i = 1 then (if j = 0 then Fin (sin t) else if j = 1 then Fin (cos t)
                          else if j = 3 then Fin y else Fin 0)
            else if i = 2 then (if j = 2 then Fin 1 else Fin 0)
            else if i = 3 then (if j = 3 then Fin 1 else Fin 0)
            else Fin 0)"
  by (rule vecToMat_cast) (simp_all add: cast_double_def)













section \<open>Per-pair score\<close>

lemma calcSourceCellScore_singular:
  assumes "inverse_check E (madd (getCov cell_t) cov_source) = (icov, det, False)"
  shows "calcSourceCellScore E mean_source cov_source cell_t deriv param calc_hessian = Zero"
  using assms by (simp add: calcSourceCellScore_def)

lemma calcSourceCellScore_not_finite:
  assumes "inverse_check E (madd (getCov cell_t) cov_source) = (icov, det, True)"
    and "dot (vsub mean_source (getMean cell_t)) (mat_vec icov (vsub mean_source (getMean cell_t))) = d"
    and "d = NaN \<or> d = PInf \<or> d = NInf"
  shows "calcSourceCellScore E mean_source cov_source cell_t deriv param calc_hessian = Zero"
proof -
  have "\<not> feq (d * Fin 0) (Fin 0)" using assms(3) by (auto simp: feq_def)
  then show ?thesis using assms(1,2) by (simp add: calcSourceCellScore_def Let_def)
qed

lemma calcSourceCellScore_finite:
  assumes "inverse_check E (madd (getCov cell_t) cov_source) = (icov, det, True)"
    and "dot (vsub mean_source (getMean cell_t))
           (mat_vec icov (vsub mean_source (getMean cell_t))) = Fin r"
  shows "sd_value (calcSourceCellScore E mean_source cov_source cell_t deriv param calc_hessian)
           = - gauss_d1 param * dexp (- gauss_d2_half param * Fin r)"
proof -
  have "feq (Fin r * Fin 0) (Fin 0)" by (simp add: feq_def)
  then show ?thesis using assms by (simp add: calcSourceCellScore_def Let_def)
qed

lemma ex_dist_finite:
  "dot (vsub (vec3 (Fin 1) (Fin 0) (Fin 0)) (getMean ex_cell))
       (mat_vec ex_icov (vsub (vec3 (Fin 1) (Fin 0) (Fin 0)) (getMean ex_cell))) = Fin 2"
  by (simp add: dot_def vsub_def vec3_def mat_vec_def ex_cell_def ex_icov_def mat33_def vec_zero_def)

lemma ex_dist_nan:
  "dot (vsub (vec3 NaN (Fin 0) (Fin 0)) (getMean ex_cell))
       (mat_vec ex_icov (vsub (vec3 NaN (Fin 0) (Fin 0)) (getMean ex_cell))) = NaN"
  by (simp add: dot_def vsub_def vec3_def mat_vec_def ex_cell_def ex_icov_def mat33_def vec_zero_def)

lemma ex_dist_inf:
  "dot (vsub (vec3 PInf PInf PInf) (getMean ex_cell))
       (mat_vec ex_icov (vsub (vec3 PInf PInf PInf) (getMean ex_cell))) = PInf"
  by (simp add: dot_def vsub_def vec3_def mat_vec_def ex_cell_def ex_icov_def mat33_def vec_zero_def)

text \<open>
  C5. For fitting constants that are finite numbers with d2_half > 0, as valid settings give
  them, \<open>calcSourceCellScore\<close> returns the all-zero triple when the covariance sum is singular
  (the flag of the inverse is false), and likewise when the Mahalanobis distance d is NaN; no
  error is raised, the result is a value in every case. Otherwise the returned value is
  \<open>-d1 * exp (-d2_half * d)\<close>: for a finite d by the last line of the function, and for
  d = +infinity because the test \<open>dist * 0 != 0\<close> returns the zero triple there as well, and
  the formula is 0 at +infinity. The distance is the quadratic form of the inverse of a sum of
  covariance matrices; that it is never minus infinity is the last hypothesis.
\<close>

theorem calcSourceCellScore_outcomes:
  assumes "inverse_check E (madd (getCov cell_t) cov_source) = (icov, det, exists)"
    and "d = dot (vsub mean_source (getMean cell_t))
               (mat_vec icov (vsub mean_source (getMean cell_t)))"
    and "gauss_d1 param = Fin a" and "gauss_d2_half param = Fin h" and "0 < h"
    and "d \<noteq> NInf"
  shows "(\<not> exists \<longrightarrow>
            calcSourceCellScore E mean_source cov_source cell_t deriv param calc_hessian = Zero)
       \<and> (exists \<and> d = NaN \<longrightarrow>
            calcSourceCellScore E mean_source cov_source cell_t deriv param calc_hessian = Zero)
       \<and> (exists \<and> d \<noteq> NaN \<longrightarrow>
            sd_value (calcSourceCellScore E mean_source cov_source cell_t deriv param calc_hessian)
              = - gauss_d1 param * dexp (- gauss_d2_half param * d))"
proof (intro conjI impI)
  assume "\<not> exists"
  then show "calcSourceCellScore E mean_source cov_source cell_t deriv param calc_hessian = Zero"
    using assms(1) by (intro calcSourceCellScore_singular [of E cell_t cov_source icov det]) simp
next
  assume "exists \<and> d = NaN"
  then show "calcSourceCellScore E mean_source cov_source cell_t deriv param calc_hessian = Zero"
    using assms(1,2)
    by (intro calcSourceCellScore_not_finite [of E cell_t cov_source icov det mean_source d]) simp_all
next
  assume e: "exists \<and> d \<noteq> NaN"
  then have i: "inverse_check E (madd (getCov cell_t) cov_source) = (icov, det, True)"
    using assms(1) by simp
  consider r where "d = Fin r" | "d = PInf"
    using e assms(6) by (cases d) auto
  then show "sd_value (calcSourceCellScore E mean_source cov_source cell_t deriv param calc_hessian)
              = - gauss_d1 param * dexp (- gauss_d2_half param * d)"
  proof cases
    case 1
    show ?thesis
      unfolding 1 by (rule calcSourceCellScore_finite [OF i]) (use 1 assms(2) in simp)
  next
    case 2
    have "calcSourceCellScore E mean_source cov_source cell_t deriv param calc_hessian = Zero"
      by (rule calcSourceCellScore_not_finite [OF i assms(2) [symmetric]]) (simp add: 2)
    then show ?thesis using assms(3-5) by (simp add: 2 Zero_def)
  qed
qed

text \<open>The cases on concrete cells, with d1 = -1 and d2_half = 1/2: a singular sum, a NaN
  distance, the distance 2, and the distance plus infinity.\<close>

theorem calcSourceCellScore_outcomes_witness:
  "gauss_d1 ex_param = Fin (- 1) \<and> gauss_d2_half ex_param = Fin (1 / 2) \<and> (0 :: real) < 1 / 2
   \<and> calcSourceCellScore ex_eigen_singular vec_zero mat_zero ex_cell_zero JHD_Zero ex_param True = Zero
   \<and> calcSourceCellScore ex_eigen (vec3 NaN (Fin 0) (Fin 0)) mat_zero ex_cell JHD_Zero ex_param True
       = Zero
   \<and> sd_value (calcSourceCellScore ex_eigen (vec3 (Fin 1) (Fin 0) (Fin 0)) mat_zero ex_cell
                 JHD_Zero ex_param True) = Fin (exp (- 1))
   \<and> sd_value (calcSourceCellScore ex_eigen (vec3 PInf PInf PInf) mat_zero ex_cell
                 JHD_Zero ex_param True) = Fin 0"
proof -
  have s: "inverse_check ex_eigen_singular (madd (getCov ex_cell_zero) mat_zero)
             = (mat_zero, Fin 0, False)"
    by (simp add: ex_eigen_singular_def)
  have e: "inverse_check ex_eigen (madd (getCov ex_cell) mat_zero) = (ex_icov, Fin (1 / 4), True)"
    by (simp add: ex_eigen_def)
  have p: "gauss_d1 ex_param = Fin (- 1)" "gauss_d2_half ex_param = Fin (1 / 2)"
    by (simp_all add: ex_param_def)
  have h: "(0 :: real) < 1 / 2" by simp
  have z: "dot (vsub vec_zero (getMean ex_cell_zero))
             (mat_vec mat_zero (vsub vec_zero (getMean ex_cell_zero))) \<noteq> NInf"
    by (simp add: dot_def vsub_def mat_vec_def ex_cell_zero_def vec_zero_def mat_zero_def vec3_def)
  have n: "dot (vsub (vec3 NaN (Fin 0) (Fin 0)) (getMean ex_cell))
       (mat_vec ex_icov (vsub (vec3 NaN (Fin 0) (Fin 0)) (getMean ex_cell))) \<noteq> NInf"
    by (simp add: ex_dist_nan)
  have f: "dot (vsub (vec3 (Fin 1) (Fin 0) (Fin 0)) (getMean ex_cell))
       (mat_vec ex_icov (vsub (vec3 (Fin 1) (Fin 0) (Fin 0)) (getMean ex_cell))) \<noteq> NInf"
    by (simp add: ex_dist_finite)
  have i: "dot (vsub (vec3 PInf PInf PInf) (getMean ex_cell))
       (mat_vec ex_icov (vsub (vec3 PInf PInf PInf) (getMean ex_cell))) \<noteq> NInf"
    by (simp add: ex_dist_inf)
  show ?thesis
    using calcSourceCellScore_outcomes [OF s refl p h z, of JHD_Zero True]
      calcSourceCellScore_outcomes [OF e refl p h n, of JHD_Zero True]
      calcSourceCellScore_outcomes [OF e refl p h f, of JHD_Zero True]
      calcSourceCellScore_outcomes [OF e refl p h i, of JHD_Zero True]
    by (simp add: ex_dist_nan ex_dist_finite ex_dist_inf ex_param_def)
qed


section \<open>Score accumulator\<close>

text \<open>Score triples under \<open>score_add\<close> form a commutative monoid with \<open>Zero\<close>; the sum of
  the slots of \<open>omp_ret\<close> grows by the contributions of each iteration, whatever slot they go
  to.\<close>

lemma score_add_assoc: "score_add (score_add a b) c = score_add a (score_add b c)"
  by (simp add: score_add_def madd_def vadd_def dadd_assoc)

lemma score_add_commute: "score_add a b = score_add b a"
  by (simp add: score_add_def madd_def vadd_def dadd_commute)

lemma score_add_Zero_left: "score_add Zero a = a"
  by (simp add: score_add_def Zero_def madd_def vadd_def mat_zero_def vec_zero_def dadd_zero_left)

lemma score_add_Zero_right: "score_add a Zero = a"
  using score_add_Zero_left [of a] by (simp add: score_add_commute)

lemma foldl_score_add: "foldl score_add a xs = score_add a (foldl score_add Zero xs)"
proof (induction xs arbitrary: a)
  case Nil
  show ?case by (simp add: score_add_Zero_right)
next
  case (Cons x xs)
  have "foldl score_add a (x # xs) = score_add (score_add a x) (foldl score_add Zero xs)"
    using Cons.IH [of "score_add a x"] by simp
  also have "\<dots> = score_add a (score_add x (foldl score_add Zero xs))"
    by (rule score_add_assoc)
  also have "score_add x (foldl score_add Zero xs) = foldl score_add Zero (x # xs)"
    using Cons.IH [of "score_add Zero x"] by (simp add: score_add_Zero_left)
  finally show ?case .
qed

lemma total_append:
  "foldl score_add Zero (xs @ ys) = score_add (foldl score_add Zero xs) (foldl score_add Zero ys)"
  using foldl_score_add [of "foldl score_add Zero xs" ys] by simp

lemma total_replicate_Zero: "foldl score_add Zero (replicate n Zero) = Zero"
  by (induction n) (simp_all add: score_add_Zero_left)

lemma total_update:
  "t < length slots \<Longrightarrow>
     foldl score_add Zero (slots[t := foldl score_add (slots ! t) cs])
       = score_add (foldl score_add Zero slots) (foldl score_add Zero cs)"
proof (induction slots arbitrary: t)
  case Nil
  then show ?case by simp
next
  case (Cons a slots)
  show ?case
  proof (cases t)
    case 0
    have "foldl score_add Zero ((a # slots)[t := foldl score_add ((a # slots) ! t) cs])
            = foldl score_add (score_add Zero (foldl score_add a cs)) slots"
      using 0 by simp
    also have "\<dots> = score_add (score_add a (foldl score_add Zero cs)) (foldl score_add Zero slots)"
      using foldl_score_add [of "foldl score_add a cs" slots] foldl_score_add [of a cs]
      by (simp add: score_add_Zero_left)
    also have "\<dots> = score_add (score_add a (foldl score_add Zero slots)) (foldl score_add Zero cs)"
      by (metis score_add_assoc score_add_commute)
    also have "score_add a (foldl score_add Zero slots) = foldl score_add Zero (a # slots)"
      using foldl_score_add [of a slots] by (simp add: score_add_Zero_left)
    finally show ?thesis .
  next
    case (Suc k)
    then have k: "k < length slots" using Cons.prems by simp
    have "foldl score_add Zero ((a # slots)[t := foldl score_add ((a # slots) ! t) cs])
            = foldl score_add a (slots[k := foldl score_add (slots ! k) cs])"
      using Suc by (simp add: score_add_Zero_left)
    also have "\<dots> = score_add a (score_add (foldl score_add Zero slots) (foldl score_add Zero cs))"
      using foldl_score_add [of a "slots[k := foldl score_add (slots ! k) cs]"] Cons.IH [OF k]
      by simp
    also have "\<dots> = score_add (score_add a (foldl score_add Zero slots)) (foldl score_add Zero cs)"
      by (simp add: score_add_assoc)
    also have "score_add a (foldl score_add Zero slots) = foldl score_add Zero (a # slots)"
      using foldl_score_add [of a slots] by (simp add: score_add_Zero_left)
    finally show ?thesis .
  qed
qed

lemma length_omp_iteration: "length (omp_iteration contrib cells tc slots) = length slots"
  by (cases tc) (simp add: omp_iteration_def)

lemma total_schedule:
  "list_all (\<lambda>tc. fst tc < length slots) sched \<Longrightarrow>
     foldl score_add Zero (fold (omp_iteration contrib cells) sched slots)
       = score_add (foldl score_add Zero slots)
           (foldl score_add Zero (concat (map (\<lambda>tc. contrib (cells ! snd tc)) sched)))"
proof (induction sched arbitrary: slots)
  case Nil
  show ?case by (simp add: score_add_Zero_right)
next
  case (Cons tc sched)
  obtain t c where tc: "tc = (t, c)" by (cases tc)
  have t: "t < length slots" using Cons.prems tc by simp
  have rest: "list_all (\<lambda>p. fst p < length (omp_iteration contrib cells tc slots)) sched"
    using Cons.prems by (simp add: length_omp_iteration)
  have "foldl score_add Zero (fold (omp_iteration contrib cells) (tc # sched) slots)
          = score_add (foldl score_add Zero (omp_iteration contrib cells tc slots))
              (foldl score_add Zero (concat (map (\<lambda>tc. contrib (cells ! snd tc)) sched)))"
    using Cons.IH [OF rest] by simp
  also have "foldl score_add Zero (omp_iteration contrib cells tc slots)
          = score_add (foldl score_add Zero slots) (foldl score_add Zero (contrib (cells ! c)))"
    using total_update [OF t] by (simp add: tc omp_iteration_def)
  finally have step: "foldl score_add Zero (fold (omp_iteration contrib cells) (tc # sched) slots)
          = score_add (score_add (foldl score_add Zero slots)
                (foldl score_add Zero (contrib (cells ! c))))
              (foldl score_add Zero (concat (map (\<lambda>tc. contrib (cells ! snd tc)) sched)))" .
  have "foldl score_add Zero (concat (map (\<lambda>tc. contrib (cells ! snd tc)) (tc # sched)))
          = score_add (foldl score_add Zero (contrib (cells ! c)))
              (foldl score_add Zero (concat (map (\<lambda>tc. contrib (cells ! snd tc)) sched)))"
    using total_append [of "contrib (cells ! c)"
        "concat (map (\<lambda>tc. contrib (cells ! snd tc)) sched)"]
    by (simp add: tc)
  then show ?case using step by (simp only: score_add_assoc)
qed


section \<open>Line search\<close>

text \<open>
  When \<open>step_min < step_max\<close>, the flag \<^verbatim>\<open>interval_converged\<close> is initialised to true by
  \<^verbatim>\<open>(step_max - step_min) > 0\<close>, and the loop, which runs only while the flag is false, is
  not entered: the search ends in its initial state, after no iteration, at the clamped
  initial step.
\<close>

lemma dlt_diff_pos: "step_min < step_max \<Longrightarrow> Fin 0 < step_max - step_min"
  by (cases step_min; cases step_max) simp_all

lemma mt_init_converged:
  "step_min < step_max \<Longrightarrow>
     mt_interval_converged (mt_init calc x step_dir step_init step_max step_min phi_0 d_phi_0)"
  unfolding mt_init_def Let_def using dlt_diff_pos [of step_min step_max] by simp

lemma mt_init_fields:
  "mt_step_iterations (mt_init calc x step_dir step_init step_max step_min phi_0 d_phi_0) = 0"
  "mt_a_t (mt_init calc x step_dir step_init step_max step_min phi_0 d_phi_0)
     = std_max (std_min step_init step_max) step_min"
  by (simp_all add: mt_init_def Let_def)

lemma mt_loop_skipped:
  assumes "step_min < step_max"
  shows "mt_loop calc x step_dir step_max step_min phi_0 d_phi_0
           (mt_init calc x step_dir step_init step_max step_min phi_0 d_phi_0)
         = mt_init calc x step_dir step_init step_max step_min phi_0 d_phi_0"
proof -
  have "\<not> mt_continue d_phi_0 (mt_init calc x step_dir step_init step_max step_min phi_0 d_phi_0)"
    using mt_init_converged [OF assms] by (simp add: mt_continue_def)
  then show ?thesis by (subst mt_loop.simps) simp
qed

lemma mt_search_no_iteration:
  assumes "step_min < step_max"
    and "mt_search calc x step_dir step_init step_max step_min score = Some (s, dir)"
  shows "mt_step_iterations s = 0 \<and> mt_a_t s = std_max (std_min step_init step_max) step_min"
  using assms(2) unfolding mt_search_def Let_def
  by (auto simp: mt_loop_skipped [OF assms(1)] mt_init_fields split: if_splits)

text \<open>The score of \<open>ex_calc\<close> at a pose on the first axis: the only pair of cells contributes
  exp(-a*a/2), with the gradient (-a exp(-a*a/2), 0, 0).\<close>

lemma calcSourceCellScore_gradient:
  assumes "inverse_check E (madd (getCov cell_t) cov_source) = (icov, det, True)"
    and "dot (vsub mean_source (getMean cell_t))
           (mat_vec icov (vsub mean_source (getMean cell_t))) = Fin r"
  shows "sd_gradient (calcSourceCellScore E mean_source cov_source cell_t deriv param calc_hessian)
           = vadd vec_zero
               (vscale (vsub (scalev (Fin 2)
                          (row_mat (row_mat (vsub mean_source (getMean cell_t)) icov) (Jest deriv)))
                        (vec3 (Fin 0) (Fin 0)
                          (dot (row_mat (row_mat (row_mat (vsub mean_source (getMean cell_t)) icov)
                                  (block33 (Zest deriv) 0 6)) icov)
                             (vsub mean_source (getMean cell_t)))))
                  (- gauss_d2_half param * (- gauss_d1 param * dexp (- gauss_d2_half param * Fin r))))"
proof -
  have "feq (Fin r * Fin 0) (Fin 0)" by (simp add: feq_def)
  then show ?thesis
    using assms
    by (simp add: calcSourceCellScore_def Let_def del: times_double_def uminus_double_def)
qed


lemma vecToMat_translation:
  "vecToMat cast_double (vec3 (Fin a) (Fin 0) (Fin 0)) =
     (\<lambda>i j. if i = 0 then (if j = 0 then Fin 1 else if j = 3 then Fin a else Fin 0)
            else if i = 1 then (if j = 1 then Fin 1 else Fin 0)
            else if i = 2 then (if j = 2 then Fin 1 else Fin 0)
            else if i = 3 then (if j = 3 then Fin 1 else Fin 0)
            else Fin 0)"
  by (subst vecToMat_finite) (auto intro!: ext)

lemma ex_mean_source:
  "affine_apply (vecToMat cast_double (vec3 (Fin a) (Fin 0) (Fin 0))) (getMean ex_cell_zero)
     = vec3 (Fin a) (Fin 0) (Fin 0)"
  by (simp add: vecToMat_translation affine_apply_def ex_cell_zero_def vec_zero_def)

lemma ex_cov_source:
  "mat_mul (mat_mul (rotation_part ex_eigen_id (vecToMat cast_double (vec3 (Fin a) (Fin 0) (Fin 0))))
              (getCov ex_cell_zero))
     (mtranspose (rotation_part ex_eigen_id (vecToMat cast_double (vec3 (Fin a) (Fin 0) (Fin 0)))))
   = mat_zero"
  by (intro ext)
     (auto simp: vecToMat_translation ex_eigen_id_def ex_cell_zero_def mat_mul_def mat33_def
        block33_def mtranspose_def mat_zero_def)


lemma ex_deriv_Jest:
  "Jest (computeDerivatives (vec3 (Fin a) (Fin 0) (Fin 0)) mat_zero JHD_Zero h) =
     (\<lambda>i j. if i < 2 \<and> j < 2 then (if i = j then Fin 1 else Fin 0)
            else if i = 1 \<and> j = 2 then Fin a else Fin 0)"
  by (subst computeDerivatives_Jest) (auto intro!: ext simp: vec3_def)

lemma ex_deriv_Zest:
  "Zest (computeDerivatives (vec3 (Fin a) (Fin 0) (Fin 0)) mat_zero JHD_Zero h) = mat_zero"
  by (subst computeDerivatives_Zest) (auto intro!: ext simp: mat_zero_def)

lemma ex_inverse:
  "inverse_check ex_eigen_id (madd (getCov ex_target) mat_zero) = (mat_identity 3, Fin 1, True)"
  by (simp add: ex_eigen_id_def)

lemma ex_diff:
  "vsub (vec3 (Fin a) (Fin 0) (Fin 0)) (getMean ex_target) = vec3 (Fin a) (Fin 0) (Fin 0)"
  by (intro ext) (simp add: vsub_def ex_target_def vec_zero_def vec3_def)

lemma ex_xtB:
  "row_mat (vec3 (Fin a) (Fin 0) (Fin 0)) (mat_identity 3) = vec3 (Fin a) (Fin 0) (Fin 0)"
  by (simp add: row_mat_def mat_identity_def vec3_nth)

lemma ex_dist:
  "dot (vec3 (Fin a) (Fin 0) (Fin 0)) (mat_vec (mat_identity 3) (vec3 (Fin a) (Fin 0) (Fin 0)))
     = Fin (a * a)"
  by (simp add: dot_def mat_vec_def mat_identity_def vec3_nth)

lemma ex_xtBJ:
  "row_mat (vec3 (Fin a) (Fin 0) (Fin 0))
     (Jest (computeDerivatives (vec3 (Fin a) (Fin 0) (Fin 0)) mat_zero JHD_Zero h))
   = vec3 (Fin a) (Fin 0) (Fin 0)"
  by (simp add: ex_deriv_Jest row_mat_def vec3_nth)

lemma ex_xtBZB:
  "row_mat (row_mat (vec3 (Fin a) (Fin 0) (Fin 0)) (block33 mat_zero 0 6)) (mat_identity 3)
     = vec3 (Fin 0) (Fin 0) (Fin 0)"
  by (simp add: row_mat_def block33_def mat33_def mat_zero_def mat_identity_def vec3_nth)

lemma ex_pair_value:
  "sd_value (calcSourceCellScore ex_eigen_id (vec3 (Fin a) (Fin 0) (Fin 0)) mat_zero ex_target
      (computeDerivatives (vec3 (Fin a) (Fin 0) (Fin 0)) mat_zero JHD_Zero h) ex_param h)
   = Fin (exp (- (a * a / 2)))"
proof -
  have d: "dot (vsub (vec3 (Fin a) (Fin 0) (Fin 0)) (getMean ex_target))
             (mat_vec (mat_identity 3) (vsub (vec3 (Fin a) (Fin 0) (Fin 0)) (getMean ex_target)))
           = Fin (a * a)"
    by (simp only: ex_diff ex_dist)
  show ?thesis
    by (subst calcSourceCellScore_finite [OF ex_inverse d]) (simp add: ex_param_def)
qed

lemma ex_pair_gradient:
  "sd_gradient (calcSourceCellScore ex_eigen_id (vec3 (Fin a) (Fin 0) (Fin 0)) mat_zero ex_target
      (computeDerivatives (vec3 (Fin a) (Fin 0) (Fin 0)) mat_zero JHD_Zero h) ex_param h)
   = vec3 (Fin (- (a * exp (- (a * a / 2))))) (Fin 0) (Fin 0)"
proof -
  have d: "dot (vsub (vec3 (Fin a) (Fin 0) (Fin 0)) (getMean ex_target))
             (mat_vec (mat_identity 3) (vsub (vec3 (Fin a) (Fin 0) (Fin 0)) (getMean ex_target)))
           = Fin (a * a)"
    by (simp only: ex_diff ex_dist)
  have z: "dot (vec3 (Fin 0) (Fin 0) (Fin 0)) (vec3 (Fin a) (Fin 0) (Fin 0)) = Fin 0"
    by (simp add: dot_def vec3_nth)
  show ?thesis
    unfolding calcSourceCellScore_gradient [OF ex_inverse d] ex_diff ex_xtB ex_xtBJ ex_deriv_Zest
      ex_xtBZB z
    by (intro ext) (simp add: vadd_def vec_zero_def vscale_def vsub_def scalev_def vec3_def
          ex_param_def)
qed


lemma calcScore_single:
  "calcScore E [(0, 0)] param [cell] x_t targetNDT h
     = foldl score_add Zero (cell_contributions E param x_t targetNDT h cell)"
proof -
  let ?omp0 = "replicate 4 Zero @ replicate 4 Zero"
  have zero: "foldl score_add Zero ?omp0 = Zero"
    by (simp only: total_append total_replicate_Zero score_add_Zero_left)
  have ids: "list_all (\<lambda>tc. fst tc < length ?omp0) [(0, 0)]" by simp
  show ?thesis
    unfolding calcScore_def Let_def
      total_schedule [OF ids, of "cell_contributions E param x_t targetNDT h" "[cell]"] zero
    by (simp add: score_add_Zero_left)
qed

lemma ex_calc_pair:
  "ex_calc (vec3 (Fin a) (Fin 0) (Fin 0)) h
     = calcSourceCellScore ex_eigen_id (vec3 (Fin a) (Fin 0) (Fin 0)) mat_zero ex_target
         (computeDerivatives (vec3 (Fin a) (Fin 0) (Fin 0)) mat_zero JHD_Zero h) ex_param h"
  unfolding ex_calc_def calcScore_single cell_contributions_def Let_def ex_mean_source ex_cov_source
  by (simp add: score_add_Zero_left)

lemma ex_calc_value:
  "sd_value (ex_calc (vec3 (Fin a) (Fin 0) (Fin 0)) h) = Fin (exp (- (a * a / 2)))"
  by (simp only: ex_calc_pair ex_pair_value)

lemma ex_calc_gradient:
  "sd_gradient (ex_calc (vec3 (Fin a) (Fin 0) (Fin 0)) h)
     = vec3 (Fin (- (a * exp (- (a * a / 2))))) (Fin 0) (Fin 0)"
  by (simp only: ex_calc_pair ex_pair_gradient)

lemma ex_step:
  "vadd (vec3 (Fin a) (Fin 0) (Fin 0)) (vscale (vec3 (Fin (- 1)) (Fin 0) (Fin 0)) (Fin t))
     = vec3 (Fin (a - t)) (Fin 0) (Fin 0)"
  by (intro ext) (simp add: vadd_def vscale_def vec3_def)

lemma ex_slope:
  "- dot (vec3 (Fin g) (Fin 0) (Fin 0)) (vec3 (Fin (- 1)) (Fin 0) (Fin 0)) = Fin g"
  by (simp add: dot_def vec3_nth)

lemma ex_clamp: "std_max (std_min (Fin 1) (Fin (1 / 10))) (Fin (1 / 20)) = Fin (1 / 10)"
  by (simp add: std_min_def std_max_def)

lemma ex_psi:
  "mt_psi_t (mt_init ex_calc (vec3 (Fin a) (Fin 0) (Fin 0)) (vec3 (Fin (- 1)) (Fin 0) (Fin 0))
               (Fin 1) (Fin (1 / 10)) (Fin (1 / 20)) (Fin p) (Fin g))
     = Fin (- exp (- ((a - 1 / 10) * (a - 1 / 10) / 2)) - p - 1 / 10000 * g * (1 / 10))"
  unfolding mt_init_def Let_def ex_clamp ex_step ex_calc_value auxilaryFunction_PsiMT_def
  by simp

text \<open>
  C1 does not hold of the code. The grids are those of \<open>ex_calc\<close>: the score at the pose
  (a, 0, 0) is exp(-a*a/2), so the objective of the search, its negation, has its minimum at
  a = 0. With the defaults \<open>step_max = 0.1\<close> and \<open>step_min = 0.05\<close>, the pose (0.04, 0, 0), the
  descent direction (-1, 0, 0) and the initial step 1, the search performs no iteration and
  returns the clamped initial step 0.1, although the sufficient-decrease condition fails
  there: the step leads to (-0.06, 0, 0), where the objective is larger than at the start, and
  psi is positive.
\<close>

theorem computeStepLengthMT_skips_search:
  "Fin (1 / 20) < Fin (1 / 10)
   \<and> (case mt_search ex_calc (vec3 (Fin (1 / 25)) (Fin 0) (Fin 0))
              (vec3 (Fin (- 1)) (Fin 0) (Fin 0)) (Fin 1) (Fin (1 / 10)) (Fin (1 / 20))
              (ex_calc (vec3 (Fin (1 / 25)) (Fin 0) (Fin 0)) True) of
         None \<Rightarrow> False
       | Some (s, dir) \<Rightarrow>
           mt_step_iterations s = 0 \<and> mt_a_t s = Fin (1 / 10) \<and> \<not> mt_psi_t s \<le> Fin 0)
   \<and> fst (computeStepLengthMT ex_calc (vec3 (Fin (1 / 25)) (Fin 0) (Fin 0))
              (vec3 (Fin (- 1)) (Fin 0) (Fin 0)) (Fin 1) (Fin (1 / 10)) (Fin (1 / 20))
              (ex_calc (vec3 (Fin (1 / 25)) (Fin 0) (Fin 0)) True)) = Fin (1 / 10)"
proof -
  let ?x = "vec3 (Fin (1 / 25)) (Fin 0) (Fin 0)"
  let ?d = "vec3 (Fin (- 1)) (Fin 0) (Fin 0)"
  define p where "p = - exp (- ((1 / 25) * (1 / 25) / 2 :: real))"
  define g where "g = - ((1 / 25) * exp (- ((1 / 25) * (1 / 25) / 2 :: real)))"
  let ?s = "mt_init ex_calc ?x ?d (Fin 1) (Fin (1 / 10)) (Fin (1 / 20)) (Fin p) (Fin g)"
  have lt: "Fin (1 / 20) < Fin (1 / 10)" by simp
  have gneg: "g < 0" by (simp add: g_def)
  have p0: "- sd_value (ex_calc ?x True) = Fin p"
    unfolding ex_calc_value p_def by simp
  have d0: "- dot (sd_gradient (ex_calc ?x True)) ?d = Fin g"
    unfolding ex_calc_gradient ex_slope g_def ..
  have s: "mt_search ex_calc ?x ?d (Fin 1) (Fin (1 / 10)) (Fin (1 / 20)) (ex_calc ?x True)
             = Some (?s, ?d)"
    unfolding mt_search_def Let_def d0 p0 using gneg
    by (simp add: mt_loop_skipped [OF lt] feq_def)
  have a: "mt_a_t ?s = Fin (1 / 10)"
    by (simp only: mt_init_fields ex_clamp)
  define q where "q = - exp (- ((1 / 25 - 1 / 10) * (1 / 25 - 1 / 10) / 2 :: real)) - p
                        - 1 / 10000 * g * (1 / 10)"
  have q: "0 < q"
  proof -
    have "q = exp (- (1 / 1250)) - exp (- (9 / 5000)) - g / 100000"
      unfolding q_def p_def by simp
    moreover have "exp (- (9 / 5000)) < exp (- (1 / 1250 :: real))" by simp
    ultimately show ?thesis using gneg by linarith
  qed
  have "mt_psi_t ?s = Fin q" unfolding ex_psi q_def ..
  then have psi: "\<not> mt_psi_t ?s \<le> Fin 0" using q by (simp add: feq_def)
  show ?thesis
    unfolding s computeStepLengthMT_def using lt a psi by (simp add: mt_init_fields(1))
qed


section \<open>Newton iteration: insufficient overlap\<close>

text \<open>The loop continues from the state that \<open>newton_iter\<close> reaches, and a step of norm
  zero or NaN ends it with the failing return.\<close>

lemma newton_iter_loop:
  "newton_iter E P sg tg param k (st, x, p, sc) = Some (st', x', p', sc') \<Longrightarrow>
     newton_loop E P sg tg param st x p sc = newton_loop E P sg tg param st' x' p' sc'"
proof (induction k arbitrary: st x p sc)
  case 0
  then show ?case by simp
next
  case (Suc k)
  from Suc.prems have nc: "\<not> converged st" by (simp split: if_splits)
  from Suc.prems nc obtain st1 x1 p1 sc1 where
    b: "newton_body E P sg tg param st x = Inr (st1, x1, p1, sc1)"
    and r: "newton_iter E P sg tg param k (st1, x1, p1, sc1) = Some (st', x', p', sc')"
    by (auto split: sum.splits)
  have "newton_loop E P sg tg param st x p sc = newton_loop E P sg tg param st1 x1 p1 sc1"
    using nc b by (subst newton_loop.simps) simp
  then show ?case using Suc.IH [OF r] by simp
qed

lemma feq_refl: "feq n n = (n \<noteq> NaN)"
  by (simp add: feq_def)

lemma newton_body_abort:
  assumes "score = calcScore E (omp P (length sg)) param sg x tg True"
    and "n = norm3 (svd_solve E (sd_hessian score) (vneg (sd_gradient score)))"
    and "feq n (Fin 0) \<or> n = NaN"
  shows "newton_body E P sg tg param st x =
           Inl (st\<lparr>trans_probability := sd_value score / Fin (real (length (input st))),
                   converged := (n \<noteq> NaN), covariance := mat_identity 3,
                   inform_matrix := mat_identity 3\<rparr>)"
proof -
  have "feq n (Fin 0) \<or> \<not> feq n n" using assms(3) by (auto simp: feq_def)
  then show ?thesis
    unfolding newton_body_def Let_def assms(1,2) [symmetric]
    by (simp add: feq_refl del: divide_double_def)
qed

lemma computeSingleGrid_abort:
  assumes "newton_iter E P sg tg param k
             (st\<lparr>nr_iterations := 0, converged := False, final_transformation := guess,
                 previous_transformation := guess\<rparr>, matToVec E guess, mat_zero, Zero)
           = Some (stk, xk, pk, sck)"
    and "\<not> converged stk"
    and "score = calcScore E (omp P (length sg)) param sg xk tg True"
    and "n = norm3 (svd_solve E (sd_hessian score) (vneg (sd_gradient score)))"
    and "feq n (Fin 0) \<or> n = NaN"
  shows "computeSingleGrid E P st sg guess tg param =
           (False,
            stk\<lparr>trans_probability := sd_value score / Fin (real (length (input stk))),
                converged := (n \<noteq> NaN), covariance := mat_identity 3,
                inform_matrix := mat_identity 3\<rparr>,
            guess)"
proof -
  have "newton_loop E P sg tg param stk xk pk sck =
          Inl (stk\<lparr>trans_probability := sd_value score / Fin (real (length (input stk))),
                converged := (n \<noteq> NaN), covariance := mat_identity 3,
                inform_matrix := mat_identity 3\<rparr>)"
    using assms(2) newton_body_abort [OF assms(3,4,5), of stk]
    by (subst newton_loop.simps) simp
  then show ?thesis
    using newton_iter_loop [OF assms(1)]
    by (simp add: computeSingleGrid_def Let_def del: divide_double_def)
qed

text \<open>
  C2. In every Newton iteration k of \<open>computeSingleGrid\<close> (the loop has reached it and
  \<open>converged\<close> is false), with the score at the current pose and n the norm of the solved
  step: if n == 0, \<open>computeSingleGrid\<close> returns false with the converged flag set, and if n
  is NaN it returns false with the converged flag false; in both cases covariance and
  information matrix are the 3x3 identity, the transformation probability is the value of that
  score divided by the number of points of the source cloud, and \<open>trans\<close> is left as it was.
\<close>

theorem computeSingleGrid_insufficient_overlap:
  assumes "newton_iter E P sg tg param k
             (st\<lparr>nr_iterations := 0, converged := False, final_transformation := guess,
                 previous_transformation := guess\<rparr>, matToVec E guess, mat_zero, Zero)
           = Some (stk, xk, pk, sck)"
    and "\<not> converged stk"
    and "score = calcScore E (omp P (length sg)) param sg xk tg True"
    and "n = norm3 (svd_solve E (sd_hessian score) (vneg (sd_gradient score)))"
  shows "(feq n (Fin 0) \<longrightarrow>
            computeSingleGrid E P st sg guess tg param =
              (False,
               stk\<lparr>trans_probability := sd_value score / Fin (real (length (input stk))),
                   converged := True, covariance := mat_identity 3,
                   inform_matrix := mat_identity 3\<rparr>,
               guess))
       \<and> (n = NaN \<longrightarrow>
            computeSingleGrid E P st sg guess tg param =
              (False,
               stk\<lparr>trans_probability := sd_value score / Fin (real (length (input stk))),
                   converged := False, covariance := mat_identity 3,
                   inform_matrix := mat_identity 3\<rparr>,
               guess))"
proof (intro conjI impI)
  assume z: "feq n (Fin 0)"
  then have "n \<noteq> NaN" by (auto simp: feq_def)
  then show "computeSingleGrid E P st sg guess tg param =
              (False,
               stk\<lparr>trans_probability := sd_value score / Fin (real (length (input stk))),
                   converged := True, covariance := mat_identity 3,
                   inform_matrix := mat_identity 3\<rparr>,
               guess)"
    using computeSingleGrid_abort [OF assms] z by simp
next
  assume z: "n = NaN"
  then show "computeSingleGrid E P st sg guess tg param =
              (False,
               stk\<lparr>trans_probability := sd_value score / Fin (real (length (input stk))),
                   converged := False, covariance := mat_identity 3,
                   inform_matrix := mat_identity 3\<rparr>,
               guess)"
    using computeSingleGrid_abort [OF assms] by simp
qed

text \<open>On empty grids the score is zero; the solver of \<open>ex_eigen\<close> then gives a step of norm
  0, the one of \<open>ex_eigen_nan\<close> a step of norm NaN, both in the first iteration.\<close>

lemma calcScore_empty: "calcScore E [] param [] x tg h = Zero"
  by (simp add: calcScore_def Let_def total_append total_replicate_Zero score_add_Zero_left)

lemma ex_norm_zero:
  "norm3 (svd_solve ex_eigen (sd_hessian Zero) (vneg (sd_gradient Zero))) = Fin 0"
  by (simp add: ex_eigen_def Zero_def vneg_def vec_zero_def norm3_def vec3_nth)

lemma ex_norm_nan:
  "norm3 (svd_solve ex_eigen_nan (sd_hessian Zero) (vneg (sd_gradient Zero))) = NaN"
  by (simp add: ex_eigen_nan_def norm3_def vec3_nth)

lemma ex_omp_empty: "omp ex_pcl (length ([] :: Leaf list)) = []"
  by (simp add: ex_pcl_def)

theorem computeSingleGrid_insufficient_overlap_witness:
  "computeSingleGrid ex_eigen ex_pcl ex_raw [] (mat_identity 4) (\<lambda>pt k. []) ex_param
     = (False,
        ex_raw\<lparr>nr_iterations := 0, converged := False, final_transformation := mat_identity 4,
               previous_transformation := mat_identity 4,
               trans_probability := Fin 0, converged := True, covariance := mat_identity 3,
               inform_matrix := mat_identity 3\<rparr>,
        mat_identity 4)
   \<and> computeSingleGrid ex_eigen_nan ex_pcl ex_raw [] (mat_identity 4) (\<lambda>pt k. []) ex_param
     = (False,
        ex_raw\<lparr>nr_iterations := 0, converged := False, final_transformation := mat_identity 4,
               previous_transformation := mat_identity 4,
               trans_probability := Fin 0, converged := False, covariance := mat_identity 3,
               inform_matrix := mat_identity 3\<rparr>,
        mat_identity 4)"
proof -
  let ?st0 = "ex_raw\<lparr>nr_iterations := 0, converged := False,
                final_transformation := mat_identity 4,
                previous_transformation := mat_identity 4\<rparr>"
  have i1: "newton_iter ex_eigen ex_pcl [] (\<lambda>pt k. []) ex_param 0
              (?st0, matToVec ex_eigen (mat_identity 4), mat_zero, Zero)
            = Some (?st0, matToVec ex_eigen (mat_identity 4), mat_zero, Zero)"
    by simp
  have i2: "newton_iter ex_eigen_nan ex_pcl [] (\<lambda>pt k. []) ex_param 0
              (?st0, matToVec ex_eigen_nan (mat_identity 4), mat_zero, Zero)
            = Some (?st0, matToVec ex_eigen_nan (mat_identity 4), mat_zero, Zero)"
    by simp
  have nc: "\<not> converged ?st0" by simp
  have sc1: "Zero = calcScore ex_eigen (omp ex_pcl (length ([] :: Leaf list))) ex_param []
                      (matToVec ex_eigen (mat_identity 4)) (\<lambda>pt k. []) True"
    by (simp only: ex_omp_empty calcScore_empty)
  have sc2: "Zero = calcScore ex_eigen_nan (omp ex_pcl (length ([] :: Leaf list))) ex_param []
                      (matToVec ex_eigen_nan (mat_identity 4)) (\<lambda>pt k. []) True"
    by (simp only: ex_omp_empty calcScore_empty)
  have n1: "Fin 0 = norm3 (svd_solve ex_eigen (sd_hessian Zero) (vneg (sd_gradient Zero)))"
    by (simp only: ex_norm_zero)
  have n2: "NaN = norm3 (svd_solve ex_eigen_nan (sd_hessian Zero) (vneg (sd_gradient Zero)))"
    by (simp only: ex_norm_nan)
  have v: "sd_value Zero / Fin (real (length (input ex_raw))) = Fin 0"
    by (simp add: Zero_def ex_raw_def)
  show ?thesis
    using computeSingleGrid_insufficient_overlap [OF i1 nc sc1 n1]
      computeSingleGrid_insufficient_overlap [OF i2 nc sc2 n2]
    by (simp add: feq_def v del: divide_double_def)
qed


section \<open>Multi-resolution schedule: a failing resolution\<close>

text \<open>\<open>computeSingleGrid\<close> sets \<open>final_transformation\<close> to its guess before the loop, and
  the loop does not write it.\<close>

lemma resolutions_loop_prefix:
  "resolutions_prefix E P pre (st, t) = Some (stk, tk) \<Longrightarrow>
     resolutions_loop E P st t (pre @ rest) = resolutions_loop E P stk tk rest"
proof (induction pre arbitrary: st t)
  case Nil
  then show ?case by simp
next
  case (Cons a pre)
  obtain c param where a: "a = (c, param)" by (cases a)
  obtain ok st1 t1 where
    r: "computeSingleGrid E P st (voxel_source P (input st) c) t (voxel_target P (target st) c) param
          = (ok, st1, t1)"
    by (cases "computeSingleGrid E P st (voxel_source P (input st) c) t
                 (voxel_target P (target st) c) param")
  from Cons.prems a r have ok: ok and p: "resolutions_prefix E P pre (st1, t1) = Some (stk, tk)"
    by (auto split: if_splits)
  show ?case using Cons.IH [OF p] ok r a by (simp add: Let_def)
qed

lemma newton_body_final_transformation:
  "newton_body E P sg tg param st x = Inl st' \<Longrightarrow>
     final_transformation st' = final_transformation st"
  "newton_body E P sg tg param st x = Inr (st', x', p', sc') \<Longrightarrow>
     final_transformation st' = final_transformation st"
  by (auto simp: newton_body_def Let_def split: if_splits prod.splits)

lemma newton_loop_final_transformation:
  "newton_loop E P sg tg param st x p sc = Inl st' \<Longrightarrow>
     final_transformation st' = final_transformation st"
proof (induction E P sg tg param st x p sc rule: newton_loop.induct)
  case (1 E P sg tg param st x p sc)
  show ?case
  proof (cases "converged st")
    case True
    then show ?thesis using "1.prems" by (subst (asm) newton_loop.simps) simp
  next
    case False
    show ?thesis
    proof (cases "newton_body E P sg tg param st x")
      case (Inl a)
      then have "a = st'" using "1.prems" False by (subst (asm) newton_loop.simps) simp
      then show ?thesis using newton_body_final_transformation(1) [OF Inl] by simp
    next
      case (Inr b)
      obtain st1 x1 p1 sc1 where b: "b = (st1, x1, p1, sc1)" by (cases b)
      have l: "newton_loop E P sg tg param st1 x1 p1 sc1 = Inl st'"
        using "1.prems" False Inr b by (subst (asm) newton_loop.simps) simp
      have "final_transformation st' = final_transformation st1"
        using "1.IH" [OF False Inr [unfolded b] refl refl refl l] .
      then show ?thesis
        using newton_body_final_transformation(2) [OF Inr [unfolded b]] by simp
    qed
  qed
qed

lemma computeSingleGrid_failure:
  assumes "computeSingleGrid E P st sg guess tg param = (False, st', t')"
  shows "final_transformation st' = guess \<and> t' = guess"
proof (cases "newton_loop E P sg tg param
        (st\<lparr>nr_iterations := 0, converged := False, final_transformation := guess,
            previous_transformation := guess\<rparr>) (matToVec E guess) mat_zero Zero")
  case (Inl a)
  then have "a = st'" "t' = guess" using assms by (simp_all add: computeSingleGrid_def Let_def)
  then show ?thesis using newton_loop_final_transformation [OF Inl] by simp
next
  case (Inr b)
  then show ?thesis using assms by (simp add: computeSingleGrid_def Let_def split: prod.splits)
qed

text \<open>
  C10. When a resolution of the schedule fails (the resolutions \<open>pre\<close> before it succeed and
  lead to the pose \<open>tk\<close>, and \<open>computeSingleGrid\<close> returns false on the next one),
  \<open>computeTransformation\<close> sets \<open>converged\<close> to false and returns with the output cloud
  unchanged, and \<open>final_transformation\<close> is the entry pose \<open>tk\<close> of the failing resolution,
  not the identity; \<open>tk\<close> is the original guess when the coarsest resolution fails.
\<close>

theorem computeTransformation_failure_frame:
  assumes "zip (cell_sizes st) (params st) = pre @ (csize, param) # post"
    and "resolutions_prefix E P pre (st, guess) = Some (stk, tk)"
    and "computeSingleGrid E P stk (voxel_source P (input stk) csize) tk
           (voxel_target P (target stk) csize) param = (False, stf, tf)"
  shows "computeTransformation E P st output guess = (stf\<lparr>converged := False\<rparr>, output)
       \<and> \<not> converged (stf\<lparr>converged := False\<rparr>)
       \<and> final_transformation (stf\<lparr>converged := False\<rparr>) = tk
       \<and> (pre = [] \<longrightarrow> tk = guess)"
proof -
  have "resolutions_loop E P st guess (pre @ (csize, param) # post)
          = resolutions_loop E P stk tk ((csize, param) # post)"
    by (rule resolutions_loop_prefix [OF assms(2)])
  also have "\<dots> = Inl (stf\<lparr>converged := False\<rparr>)"
    using assms(3) by (simp add: Let_def)
  finally have "computeTransformation E P st output guess = (stf\<lparr>converged := False\<rparr>, output)"
    by (simp add: computeTransformation_def assms(1))
  moreover have "final_transformation stf = tk"
    using computeSingleGrid_failure [OF assms(3)] by simp
  moreover have "pre = [] \<longrightarrow> tk = guess" using assms(2) by auto
  ultimately show ?thesis by simp
qed

text \<open>One resolution, failing on empty grids, from a guess that is not the identity.\<close>

lemma ex_first_resolution_fails:
  "computeSingleGrid ex_eigen ex_pcl ex_raw (voxel_source ex_pcl (input ex_raw) (Fin 1)) G
      (voxel_target ex_pcl (target ex_raw) (Fin 1)) ex_param
   = (False,
      ex_raw\<lparr>nr_iterations := 0, converged := False, final_transformation := G,
             previous_transformation := G, trans_probability := Fin 0, converged := True,
             covariance := mat_identity 3, inform_matrix := mat_identity 3\<rparr>,
      G)"
proof -
  let ?st0 = "ex_raw\<lparr>nr_iterations := 0, converged := False, final_transformation := G,
                previous_transformation := G\<rparr>"
  have g: "voxel_source ex_pcl (input ex_raw) (Fin 1) = []"
    "voxel_target ex_pcl (target ex_raw) (Fin 1) = (\<lambda>pt k. [])"
    by (simp_all add: ex_pcl_def)
  have i: "newton_iter ex_eigen ex_pcl [] (\<lambda>pt k. []) ex_param 0
              (?st0, matToVec ex_eigen G, mat_zero, Zero)
            = Some (?st0, matToVec ex_eigen G, mat_zero, Zero)"
    by simp
  have nc: "\<not> converged ?st0" by simp
  have sc: "Zero = calcScore ex_eigen (omp ex_pcl (length ([] :: Leaf list))) ex_param []
                      (matToVec ex_eigen G) (\<lambda>pt k. []) True"
    by (simp only: ex_omp_empty calcScore_empty)
  have n: "Fin 0 = norm3 (svd_solve ex_eigen (sd_hessian Zero) (vneg (sd_gradient Zero)))"
    by (simp only: ex_norm_zero)
  have z: "feq (Fin 0) (Fin 0) \<or> Fin 0 = NaN" by (simp add: feq_def)
  have v: "sd_value Zero / Fin (real (length (input ex_raw))) = Fin 0"
    by (simp add: Zero_def ex_raw_def)
  show ?thesis
    unfolding g using computeSingleGrid_abort [OF i nc sc n z]
    by (simp add: v del: divide_double_def)
qed

theorem computeTransformation_failure_frame_witness:
  "computeTransformation ex_eigen ex_pcl ex_raw [vec_zero] (vecToMat cast_double (vec3 (Fin 1) (Fin 2) (Fin 0)))
     = (ex_raw\<lparr>nr_iterations := 0,
              final_transformation := vecToMat cast_double (vec3 (Fin 1) (Fin 2) (Fin 0)),
              previous_transformation := vecToMat cast_double (vec3 (Fin 1) (Fin 2) (Fin 0)),
              trans_probability := Fin 0, covariance := mat_identity 3,
              inform_matrix := mat_identity 3, converged := False\<rparr>,
        [vec_zero])"
proof -
  let ?G = "vecToMat cast_double (vec3 (Fin 1) (Fin 2) (Fin 0))"
  have z: "zip (cell_sizes ex_raw) (params ex_raw) = [] @ (Fin 1, ex_param) # []"
    by (simp add: ex_raw_def)
  have p: "resolutions_prefix ex_eigen ex_pcl [] (ex_raw, ?G) = Some (ex_raw, ?G)"
    by simp
  show ?thesis
    using computeTransformation_failure_frame [OF z p ex_first_resolution_fails, of "[vec_zero]"]
    by simp
qed


section \<open>Cell sizes\<close>

lemma initCellSizes_loop_eq:
  "- 1 \<le> i \<Longrightarrow>
     initCellSizes_loop b i cs = cs @ map (\<lambda>k. to_float (b * pow_2 k)) (rev [0..<nat (i + 1)])"
proof (induction b i cs rule: initCellSizes_loop.induct)
  case (1 b i cs)
  show ?case
  proof (cases "0 \<le> i")
    case True
    have n: "nat (i + 1) = Suc (nat i)" using True by simp
    have m: "nat (i - 1 + 1) = nat i" by simp
    have "initCellSizes_loop b i cs
            = initCellSizes_loop b (i - 1) (cs @ [to_float (b * pow_2 (nat i))])"
      using True by (subst initCellSizes_loop.simps) simp
    also have "\<dots> = (cs @ [to_float (b * pow_2 (nat i))])
                       @ map (\<lambda>k. to_float (b * pow_2 k)) (rev [0..<nat (i - 1 + 1)])"
      using "1.IH" [OF True] True by simp
    finally show ?thesis by (simp add: n m)
  next
    case False
    then have i: "i = - 1" using "1.prems" by simp
    show ?thesis unfolding i by (subst initCellSizes_loop.simps) simp
  qed
qed

lemma to_int32_layer:
  assumes "L \<le> 2 ^ 31"
  shows "to_int32 ((int L - 1) mod 2 ^ 64) = int L - 1"
proof (cases "L = 0")
  case True
  then show ?thesis by (simp add: to_int32_def)
next
  case False
  have b: "int L \<le> 2 ^ 31" using assms by (metis of_nat_le_iff of_nat_numeral of_nat_power)
  have "0 \<le> int L - 1" "int L - 1 < 2 ^ 64" using False b by auto
  then have "(int L - 1) mod 2 ^ 64 = int L - 1" by simp
  moreover have "0 \<le> int L - 1 + 2 ^ 31" "int L - 1 + 2 ^ 31 < 2 ^ 32" using False b by auto
  then have "(int L - 1 + 2 ^ 31) mod 2 ^ 32 = int L - 1 + 2 ^ 31" by simp
  ultimately show ?thesis by (simp add: to_int32_def)
qed

lemma getCellSizes_setCellSize:
  assumes "layer_count st \<le> 2 ^ 31"
  shows "getCellSizes (setCellSize st b)
           = map (\<lambda>k. to_float (b * pow_2 k)) (rev [0..<layer_count st])"
proof -
  have "- 1 \<le> int (layer_count st) - 1" by simp
  then have "initCellSizes_loop b (int (layer_count st) - 1) []
               = map (\<lambda>k. to_float (b * pow_2 k)) (rev [0..<layer_count st])"
    using initCellSizes_loop_eq [of "int (layer_count st) - 1" b "[]"] by simp
  then show ?thesis
    unfolding getCellSizes_def setCellSize_def initCellSizes_def to_int32_layer [OF assms]
    by (simp add: initParams_def)
qed

lemma to_float_scale:
  assumes "round_binary 24 (- 126) x = x" and "k < 1024" and "\<bar>x\<bar> * 2 ^ k < 2 ^ 128"
  shows "to_float (Fin x * pow_2 k) = Fin (x * 2 ^ k)"
proof -
  have "round_binary 24 (- 126) (x * 2 ^ k) = x * 2 ^ k"
    by (rule round_binary_pow2 [OF assms(1)])
  moreover have "\<bar>x * 2 ^ k\<bar> < 2 ^ 128" using assms(3) by (simp add: abs_mult)
  ultimately show ?thesis using assms(2) by (simp add: pow_2_def Let_def)
qed

lemma scaled_sizes:
  assumes "round_binary 24 (- 126) x = x" and "0 < x" and "L \<le> 1024"
    and "x * 2 ^ (L - 1) < 2 ^ 128"
  shows "map (\<lambda>k. to_float (Fin x * pow_2 k)) (rev [0..<L]) = map (\<lambda>k. Fin (x * 2 ^ k)) (rev [0..<L])"
proof (rule map_cong [OF refl])
  fix k assume "k \<in> set (rev [0..<L])"
  then have k: "k < L" by simp
  then have "k \<le> L - 1" by simp
  then have "(2 :: real) ^ k \<le> 2 ^ (L - 1)" by (intro power_increasing) simp_all
  then have "x * 2 ^ k \<le> x * 2 ^ (L - 1)"
    using assms(2) by (intro mult_left_mono) simp_all
  then have "x * 2 ^ k < 2 ^ 128" using assms(4) by (rule le_less_trans)
  then have "\<bar>x\<bar> * 2 ^ k < 2 ^ 128" using assms(2) by simp
  moreover have "k < 1024" using k assms(3) by simp
  ultimately show "to_float (Fin x * pow_2 k) = Fin (x * 2 ^ k)"
    by (rule to_float_scale [OF assms(1), rotated])
qed

lemma powers_strictly_decreasing:
  assumes "0 < (x :: real)"
  shows "sorted_wrt (\<lambda>a b. b < a) (map (\<lambda>k. Fin (x * 2 ^ k)) (rev [0..<L]))"
proof -
  have "sorted_wrt (\<lambda>a b. a < b) [0..<L]" by simp
  then have "sorted_wrt (\<lambda>i j. Fin (x * 2 ^ i) < Fin (x * 2 ^ j)) [0..<L]"
    by (rule sorted_wrt_mono_rel [rotated]) (use assms in simp)
  then show ?thesis by (simp add: sorted_wrt_map sorted_wrt_rev rev_map [symmetric])
qed

text \<open>Sorting: on values other than NaN the comparison is a linear order.\<close>

lemma set_insert_sorted: "set (insert_sorted x ys) = insert x (set ys)"
  by (induction ys) auto

lemma mset_insert_sorted: "mset (insert_sorted x ys) = add_mset x (mset ys)"
  by (induction ys) auto

lemma mset_std_sort: "mset (std_sort xs) = mset xs"
  unfolding std_sort_def by (induction xs) (simp_all add: mset_insert_sorted)

lemma double_not_less:
  "a \<noteq> NaN \<Longrightarrow> b \<noteq> NaN \<Longrightarrow> \<not> b < a \<Longrightarrow> a \<le> (b :: double)"
  by (cases a; cases b) (auto simp: feq_def)

lemma double_less_imp_le: "a < b \<Longrightarrow> a \<le> (b :: double)"
  by simp

lemma double_le_trans:
  "a \<le> b \<Longrightarrow> b \<le> c \<Longrightarrow> a \<le> (c :: double)"
  by (cases a; cases b; cases c) (auto simp: feq_def)

lemma sorted_insert_sorted:
  assumes "sorted_wrt (\<lambda>a b. a \<le> b) ys" and "x \<noteq> NaN" and "NaN \<notin> set ys"
  shows "sorted_wrt (\<lambda>a b. a \<le> b) (insert_sorted x ys)"
  using assms
proof (induction ys)
  case Nil
  then show ?case by simp
next
  case (Cons y ys)
  have ys: "sorted_wrt (\<lambda>a b. a \<le> b) ys" and y: "\<And>z. z \<in> set ys \<Longrightarrow> y \<le> z"
    using Cons.prems(1) by simp_all
  have n: "y \<noteq> NaN" "NaN \<notin> set ys" using Cons.prems(3) by auto
  show ?case
  proof (cases "y < x")
    case True
    have i: "sorted_wrt (\<lambda>a b. a \<le> b) (insert_sorted x ys)"
      by (rule Cons.IH [OF ys Cons.prems(2) n(2)])
    have "y \<le> z" if "z \<in> set (insert_sorted x ys)" for z
    proof -
      from that have "z = x \<or> z \<in> set ys" by (simp add: set_insert_sorted)
      then show ?thesis
      proof
        assume "z = x"
        then show ?thesis using True by simp
      next
        assume "z \<in> set ys"
        then show ?thesis by (rule y)
      qed
    qed
    then have "sorted_wrt (\<lambda>a b. a \<le> b) (y # insert_sorted x ys)" using i by simp
    then show ?thesis using True by simp
  next
    case False
    have xy: "x \<le> y" using Cons.prems(2) n(1) False by (rule double_not_less)
    have "x \<le> z" if "z \<in> set ys" for z
      using xy y [OF that] by (rule double_le_trans)
    then have "sorted_wrt (\<lambda>a b. a \<le> b) (x # y # ys)" using xy Cons.prems(1) by simp
    then show ?thesis using False by simp
  qed
qed

lemma sorted_std_sort:
  "NaN \<notin> set xs \<Longrightarrow> sorted_wrt (\<lambda>a b. a \<le> b) (std_sort xs)"
proof (induction xs)
  case Nil
  show ?case by (simp add: std_sort_def)
next
  case (Cons x xs)
  have s: "sorted_wrt (\<lambda>a b. a \<le> b) (std_sort xs)" by (rule Cons.IH) (use Cons.prems in simp)
  have "set (std_sort xs) = set xs"
    using mset_std_sort [of xs] by (rule mset_eq_setD)
  then have n: "NaN \<notin> set (std_sort xs)" using Cons.prems by simp
  have x: "x \<noteq> NaN" using Cons.prems by auto
  have "std_sort (x # xs) = insert_sorted x (std_sort xs)" by (simp add: std_sort_def)
  then show ?case using sorted_insert_sorted [OF s x n] by simp
qed

lemma sorted_distinct_strict:
  assumes "sorted_wrt (\<lambda>a b. a \<le> b) (xs :: double list)" and "distinct xs"
  shows "sorted_wrt (\<lambda>a b. a < b) xs"
  using assms
proof (induction xs)
  case Nil
  show ?case by simp
next
  case (Cons x xs)
  have "x < z" if "z \<in> set xs" for z
  proof -
    have "x \<le> z" "x \<noteq> z" using Cons.prems that by auto
    then show ?thesis by (auto simp: feq_def)
  qed
  moreover have "sorted_wrt (\<lambda>a b. a < b) xs" using Cons by simp
  ultimately show ?case by simp
qed

lemma getCellSizes_setCellSize_vector:
  "getCellSizes (setCellSize_vector st sizes) = rev (std_sort sizes)"
  by (simp add: getCellSizes_def setCellSize_vector_def initParams_def)

lemma rev_sort_descending:
  "NaN \<notin> set sizes \<Longrightarrow> sorted_wrt (\<lambda>a b. b \<le> a) (rev (std_sort sizes))"
  using sorted_std_sort [of sizes] by (simp add: sorted_wrt_rev)

lemma rev_sort_strict:
  assumes "NaN \<notin> set sizes" and "distinct sizes"
  shows "sorted_wrt (\<lambda>a b. b < a) (rev (std_sort sizes))"
proof -
  have "distinct (std_sort sizes)"
    using assms(2) mset_std_sort [of sizes] by (metis distinct_count_atmost_1 set_mset_mset)
  then have "sorted_wrt (\<lambda>a b. a < b) (std_sort sizes)"
    using sorted_std_sort [OF assms(1)] by (intro sorted_distinct_strict)
  then show ?thesis by (simp add: sorted_wrt_rev)
qed


lemma to_float_fixed: "to_float (Fin x) = Fin x \<Longrightarrow> round_binary 24 (- 126) x = x"
  by (simp add: Let_def split: if_splits)

lemma to_float_quarter: "to_float (Fin (1 / 4)) = Fin (1 / 4)"
proof -
  have "round_binary 24 (- 126) (1 / 4) = 1 / 4"
    by (subst round_binary_eval [where k = "- 2"]) (simp_all add: powr_minus rne_def Let_def)
  then show ?thesis by simp
qed

lemma to_float_large:
  "to_float (Fin (2 ^ 127)) = Fin (2 ^ 127)" "to_float (Fin (2 ^ 128)) = PInf"
  "to_float (Fin (2 ^ 129)) = PInf"
proof -
  have "round_binary 24 (- 126) (2 ^ 127) = 2 ^ 127"
    by (subst round_binary_eval [where k = 127]) (simp_all add: rne_def Let_def)
  then show "to_float (Fin (2 ^ 127)) = Fin (2 ^ 127)" by simp
  have "round_binary 24 (- 126) (2 ^ 128) = 2 ^ 128"
    by (subst round_binary_eval [where k = 128]) (simp_all add: rne_def Let_def)
  then show "to_float (Fin (2 ^ 128)) = PInf" by simp
  have "round_binary 24 (- 126) (2 ^ 129) = 2 ^ 129"
    by (subst round_binary_eval [where k = 129]) (simp_all add: rne_def Let_def)
  then show "to_float (Fin (2 ^ 129)) = PInf" by simp
qed

lemma getCellSizes_scalar:
  assumes "to_float (Fin x) = Fin x" and "0 < x" and "layer_count st \<le> 1024"
    and "x * 2 ^ (layer_count st - 1) < 2 ^ 128"
  shows "getCellSizes (setCellSize st (Fin x))
           = map (\<lambda>k. Fin (x * 2 ^ k)) (rev [0..<layer_count st])"
proof -
  have "layer_count st \<le> 2 ^ 31" using assms(3) by simp
  then show ?thesis
    by (simp only: getCellSizes_setCellSize
          scaled_sizes [OF to_float_fixed [OF assms(1)] assms(2-4)])
qed

lemma getCellSizes_default:
  "getCellSizes (D2DNormalDistributionsTransform2D raw) = [Fin 2, Fin 1, Fin (1 / 2), Fin (1 / 4)]"
proof -
  let ?st = "raw\<lparr>step_size := Fin (1 / 10), outlier_ratio := Fin (55 / 100),
                    trans_probability := Fin 0, layer_count := 4, nr_iterations := 0,
                    max_iterations := 35, transformation_epsilon := Fin (1 / 10),
                    converged := False\<rparr>"
  have u: "rev [0..<4] = [3, 2, 1, 0 :: nat]" by (simp add: upt_rec)
  have "getCellSizes (setCellSize ?st (Fin (1 / 4)))
          = map (\<lambda>k. Fin (1 / 4 * 2 ^ k)) (rev [0..<layer_count ?st])"
    by (rule getCellSizes_scalar [OF to_float_quarter]) simp_all
  then have "getCellSizes (setCellSize ?st (Fin (1 / 4))) = [Fin 2, Fin 1, Fin (1 / 2), Fin (1 / 4)]"
    by (simp add: u)
  then show ?thesis
    by (simp add: getCellSizes_def D2DNormalDistributionsTransform2D_def Let_def
          setCellSize_def initCellSizes_def initParams_def)
qed

text \<open>
  C8 (amended). After the default construction \<open>getCellSizes\<close> is {2, 1, 0.5, 0.25}. After
  \<open>setCellSize\<close> with an explicit vector it is a rearrangement of that vector; when no entry
  is NaN it is sorted in non-increasing order (coarsest to finest), strictly decreasing when
  the entries are distinct. After \<open>setCellSize\<close> with a scalar base b, a float, b > 0, and a
  layer count L of at most 1024 with b*2^(L-1) below 2^128, where floats overflow, it is
  {b*2^(L-1), ..., b*2, b}, which is strictly decreasing.
\<close>

theorem cell_sizes_after_configuration:
  "getCellSizes (D2DNormalDistributionsTransform2D raw) = [Fin 2, Fin 1, Fin (1 / 2), Fin (1 / 4)]
   \<and> mset (getCellSizes (setCellSize_vector st sizes)) = mset sizes
   \<and> (NaN \<notin> set sizes \<longrightarrow>
        sorted_wrt (\<lambda>a b. b \<le> a) (getCellSizes (setCellSize_vector st sizes))
        \<and> (distinct sizes \<longrightarrow>
             sorted_wrt (\<lambda>a b. b < a) (getCellSizes (setCellSize_vector st sizes))))
   \<and> (to_float (Fin x) = Fin x \<and> 0 < x \<and> layer_count st \<le> 1024
        \<and> x * 2 ^ (layer_count st - 1) < 2 ^ 128 \<longrightarrow>
        getCellSizes (setCellSize st (Fin x))
          = map (\<lambda>k. Fin (x * 2 ^ k)) (rev [0..<layer_count st])
        \<and> sorted_wrt (\<lambda>a b. b < a) (getCellSizes (setCellSize st (Fin x))))"
proof (intro conjI impI)
  show "getCellSizes (D2DNormalDistributionsTransform2D raw)
          = [Fin 2, Fin 1, Fin (1 / 2), Fin (1 / 4)]"
    by (rule getCellSizes_default)
  show "mset (getCellSizes (setCellSize_vector st sizes)) = mset sizes"
    by (simp add: getCellSizes_setCellSize_vector mset_std_sort)
  show "sorted_wrt (\<lambda>a b. b \<le> a) (getCellSizes (setCellSize_vector st sizes))"
    if "NaN \<notin> set sizes"
    unfolding getCellSizes_setCellSize_vector by (rule rev_sort_descending [OF that])
  show "sorted_wrt (\<lambda>a b. b < a) (getCellSizes (setCellSize_vector st sizes))"
    if "NaN \<notin> set sizes" "distinct sizes"
    unfolding getCellSizes_setCellSize_vector by (rule rev_sort_strict [OF that])
next
  assume a: "to_float (Fin x) = Fin x \<and> 0 < x \<and> layer_count st \<le> 1024
        \<and> x * 2 ^ (layer_count st - 1) < 2 ^ 128"
  then have e: "getCellSizes (setCellSize st (Fin x))
          = map (\<lambda>k. Fin (x * 2 ^ k)) (rev [0..<layer_count st])"
    by (intro getCellSizes_scalar) simp_all
  then show "getCellSizes (setCellSize st (Fin x))
          = map (\<lambda>k. Fin (x * 2 ^ k)) (rev [0..<layer_count st])" .
  show "sorted_wrt (\<lambda>a b. b < a) (getCellSizes (setCellSize st (Fin x)))"
    unfolding e using a by (intro powers_strictly_decreasing) simp
qed

text \<open>The vector {0.5, 2, 1}, and the base 0.25 with four layers.\<close>

theorem cell_sizes_after_configuration_witness:
  "NaN \<notin> set [Fin (1 / 2), Fin 2, Fin 1] \<and> distinct [Fin (1 / 2), Fin 2, Fin 1]
   \<and> to_float (Fin (1 / 4)) = Fin (1 / 4) \<and> (0 :: real) < 1 / 4
   \<and> layer_count (ex_raw\<lparr>layer_count := 4\<rparr>) \<le> 1024
   \<and> (1 / 4 :: real) * 2 ^ (layer_count (ex_raw\<lparr>layer_count := 4\<rparr>) - 1) < 2 ^ 128
   \<and> getCellSizes (setCellSize_vector ex_raw [Fin (1 / 2), Fin 2, Fin 1])
       = [Fin 2, Fin 1, Fin (1 / 2)]
   \<and> sorted_wrt (\<lambda>a b. b < a) (getCellSizes (setCellSize_vector ex_raw [Fin (1 / 2), Fin 2, Fin 1]))
   \<and> getCellSizes (setCellSize (ex_raw\<lparr>layer_count := 4\<rparr>) (Fin (1 / 4)))
       = [Fin 2, Fin 1, Fin (1 / 2), Fin (1 / 4)]
   \<and> sorted_wrt (\<lambda>a b. b < a) (getCellSizes (setCellSize (ex_raw\<lparr>layer_count := 4\<rparr>) (Fin (1 / 4))))"
proof -
  have u: "rev [0..<4] = [3, 2, 1, 0 :: nat]" by (simp add: upt_rec)
  show ?thesis
    using cell_sizes_after_configuration [of ex_raw "ex_raw\<lparr>layer_count := 4\<rparr>" "[]" "1 / 4"]
      cell_sizes_after_configuration [of ex_raw ex_raw "[Fin (1 / 2), Fin 2, Fin 1]" "1 / 4"]
    by (simp add: u to_float_quarter getCellSizes_setCellSize_vector std_sort_def
          del: to_float.simps)
qed

text \<open>
  C8 as stated fails: a vector with a repeated entry stays with it, the base 0 gives equal
  sizes, and the base 2^127 with three layers gives {inf, inf, 2^127}, the two coarsest sizes
  having overflowed; none of these sequences is strictly decreasing.
\<close>

theorem cell_sizes_not_strictly_decreasing:
  "getCellSizes (setCellSize_vector ex_raw [Fin 1, Fin 1]) = [Fin 1, Fin 1]
   \<and> \<not> sorted_wrt (\<lambda>a b. b < a) (getCellSizes (setCellSize_vector ex_raw [Fin 1, Fin 1]))
   \<and> getCellSizes (setCellSize (ex_raw\<lparr>layer_count := 2\<rparr>) (Fin 0)) = [Fin 0, Fin 0]
   \<and> \<not> sorted_wrt (\<lambda>a b. b < a) (getCellSizes (setCellSize (ex_raw\<lparr>layer_count := 2\<rparr>) (Fin 0)))
   \<and> to_float (Fin (2 ^ 127)) = Fin (2 ^ 127)
   \<and> getCellSizes (setCellSize (ex_raw\<lparr>layer_count := 3\<rparr>) (Fin (2 ^ 127)))
       = [PInf, PInf, Fin (2 ^ 127)]
   \<and> \<not> sorted_wrt (\<lambda>a b. b < a)
         (getCellSizes (setCellSize (ex_raw\<lparr>layer_count := 3\<rparr>) (Fin (2 ^ 127))))"
proof -
  have u: "rev [0..<2] = [1, 0 :: nat]" "rev [0..<3] = [2, 1, 0 :: nat]"
    by (simp_all add: upt_rec)
  have a: "getCellSizes (setCellSize_vector ex_raw [Fin 1, Fin 1]) = [Fin 1, Fin 1]"
    by (simp add: getCellSizes_setCellSize_vector std_sort_def)
  have b: "getCellSizes (setCellSize (ex_raw\<lparr>layer_count := 2\<rparr>) (Fin 0)) = [Fin 0, Fin 0]"
    using getCellSizes_setCellSize [of "ex_raw\<lparr>layer_count := 2\<rparr>" "Fin 0"]
    by (simp add: u pow_2_def to_float_zero del: to_float.simps)
  have p: "Fin (2 ^ 127) * pow_2 2 = Fin (2 ^ 129)" "Fin (2 ^ 127) * pow_2 1 = Fin (2 ^ 128)"
    "Fin (2 ^ 127) * pow_2 0 = Fin (2 ^ 127)"
    by (simp_all add: pow_2_def)
  have c: "getCellSizes (setCellSize (ex_raw\<lparr>layer_count := 3\<rparr>) (Fin (2 ^ 127)))
       = [PInf, PInf, Fin (2 ^ 127)]"
  proof -
    have l: "layer_count (ex_raw\<lparr>layer_count := 3\<rparr>) \<le> 2 ^ 31" by simp
    have lc: "layer_count (ex_raw\<lparr>layer_count := 3\<rparr>) = 3" by simp
    show ?thesis
      by (simp only: getCellSizes_setCellSize [OF l] lc u list.map p to_float_large)
  qed
  show ?thesis
    by (simp only: a b c to_float_large) simp
qed


section \<open>Robust wrapper\<close>

text \<open>The validator reads the clouds and the cell size of the wrapper, which no stage
  changes. When the first score exceeds 0.7 the second evaluation of the validator is on the
  same transformation, so the final arbitration accepts it.\<close>

lemma robust_frame:
  "input ((st :: Robust)\<lparr>d2d := d\<rparr>) = input st"
  "target ((st :: Robust)\<lparr>d2d := d\<rparr>) = target st"
  "input ((st :: Robust)\<lparr>corr_est := c\<rparr>) = input st"
  "target ((st :: Robust)\<lparr>corr_est := c\<rparr>) = target st"
  by (cases st, simp)+

lemma proofTransform_frame:
  "proofTransform P (st\<lparr>d2d := d\<rparr>) T = proofTransform P st T"
  "proofTransform P (st\<lparr>corr_est := c\<rparr>) T = proofTransform P st T"
  by (simp_all add: proofTransform_def robust_frame)

lemma robust_arbitrate_direct:
  assumes "7 / 10 < proofTransform P st (final_transformation (d2d st))"
  shows "robust_arbitrate P st (proofTransform P st (final_transformation (d2d st))) ft
           = accept P st (final_transformation (d2d st))"
  using assms by (simp add: robust_arbitrate_def accept_def Let_def)

lemma robust_arbitrate_staged:
  "robust_arbitrate P st s1 T1 =
     (let T2 = final_transformation (d2d st); s2 = proofTransform P st T2
      in if s2 \<ge> 4 / 10 then accept P st T2
         else if s1 > 6 / 10 then accept P st T1
         else (no_alignment st, transformPointCloud P (input st) (mat_identity 4)))"
  by (simp add: robust_arbitrate_def accept_def no_alignment_def Let_def not_le)

text \<open>
  C3. For every source, target and guess, the wrapper decides by staged arbitration with the
  thresholds 0.7, 0.6 and 0.4: if the direct D2D run converges and its validator score s1
  exceeds 0.7, it accepts that transformation, and the correlative estimator is left as it was
  (no further stage runs); otherwise, if the correlative seed or the seeded D2D rerun does not
  converge, it reports no alignment (converged false, identity as final transformation);
  otherwise it accepts the rerun's transformation iff its score s2 is at least 0.4, else the
  first transformation iff s1 exceeds 0.6, else it reports no alignment. The value that the
  uninitialised \<open>first_trans\<close> holds plays no role.
\<close>

theorem robust_align_staged_arbitration:
  "robust_computeTransformation P A first_trans0 st output guess
     = staged_arbitration P A st output guess"
proof (cases "d2d_align A (d2d st) output guess")
  case (Pair d1 out1)
  obtain c1 out2 where c: "corr_align A (corr_est st) out1 guess = (c1, out2)"
    by (cases "corr_align A (corr_est st) out1 guess")
  obtain d2 out3 where d: "d2d_align A d1 out2 (final_transformation c1) = (d2, out3)"
    by (cases "d2d_align A d1 out2 (final_transformation c1)")
  show ?thesis
  proof (cases "converged d1")
    case conv: True
    show ?thesis
    proof (cases "7 / 10 < proofTransform P st (final_transformation d1)")
      case True
      then show ?thesis
        using conv robust_arbitrate_direct [of P "st\<lparr>d2d := d1\<rparr>" first_trans0]
        by (simp add: robust_computeTransformation_def staged_arbitration_def Pair Let_def
              proofTransform_frame robust_frame)
    next
      case False
      then show ?thesis
        using conv
        by (simp add: robust_computeTransformation_def staged_arbitration_def Pair c d Let_def
              proofTransform_frame robust_frame robust_arbitrate_staged no_alignment_def accept_def)
    qed
  next
    case False
    then show ?thesis
      by (simp add: robust_computeTransformation_def staged_arbitration_def Pair c d Let_def
            proofTransform_frame robust_frame robust_arbitrate_staged no_alignment_def accept_def)
  qed
qed

end
